theory Spec2Isabelle
  imports Main
begin

section \<open>Values and errors of the runtime\<close>

text \<open>
  Decoded JSON documents, as \<^verbatim>\<open>JSON.parse\<close> and the HTTP client hand them to the
  code. An object keeps its members in insertion order, as \<^verbatim>\<open>Object.keys\<close>
  enumerates them. Numbers are integer valued in this model: the code never
  computes with a decoded number, it only tests it for truthiness and converts
  it to text. A value of type \<open>json option\<close> is a JavaScript value that may be
  \<^verbatim>\<open>undefined\<close> (\<open>None\<close>).
\<close>

datatype json =
    JNull
  | JBool bool
  | JNum int
  | JStr string
  | JArr "json list"
  | JObj "(string \<times> json) list"

text \<open>
  What a \<^verbatim>\<open>throw\<close> carries. \<open>Error m\<close> is \<^verbatim>\<open>new Error(m)\<close>; \<open>TypeError m\<close> is
  raised by the runtime itself (a property read on \<^verbatim>\<open>null\<close>, a call of something
  that is not a function); \<open>SyntaxError m\<close> is raised by \<^verbatim>\<open>JSON.parse\<close>;
  \<open>AxiosError code m resp\<close> is the HTTP client's failure with its \<^verbatim>\<open>code\<close>, its
  \<^verbatim>\<open>message\<close> and, when the service answered, the status and body of the answer.
\<close>

datatype js_error =
    Error string
  | TypeError string
  | SyntaxError string
  | AxiosError "string option" string "(nat \<times> json) option"

section \<open>JavaScript operations used by the code\<close>

text \<open>
  Truthiness of a value, \<^verbatim>\<open>a || b\<close>, and the property read \<^verbatim>\<open>v.k\<close>. A property read
  on \<^verbatim>\<open>null\<close> or \<^verbatim>\<open>undefined\<close> throws a TypeError; on an object it gives the member
  or \<^verbatim>\<open>undefined\<close>; on any other value it gives \<^verbatim>\<open>undefined\<close>, since no property name
  read by this code is defined on the prototype of a string, a number, a boolean
  or an array.
\<close>

fun truthy :: "json \<Rightarrow> bool" where
  "truthy JNull = False"
| "truthy (JBool b) = b"
| "truthy (JNum n) = (n \<noteq> 0)"
| "truthy (JStr s) = (s \<noteq> [])"
| "truthy (JArr xs) = True"
| "truthy (JObj ms) = True"

fun truthy_opt :: "json option \<Rightarrow> bool" where
  "truthy_opt None = False"
| "truthy_opt (Some v) = truthy v"

definition js_or :: "json option \<Rightarrow> json option \<Rightarrow> json option" where
  "js_or a b = (if truthy_opt a then a else b)"

fun read_prop :: "json \<Rightarrow> string \<Rightarrow> js_error + json option" where
  "read_prop JNull k = Inl (TypeError (''Cannot read properties of null (reading '' @ k @ '')''))"
| "read_prop (JObj ms) k = Inr (map_of ms k)"
| "read_prop v k = Inr None"

text \<open>\<^verbatim>\<open>v?.k\<close>: \<^verbatim>\<open>undefined\<close> when \<open>v\<close> is \<^verbatim>\<open>null\<close> or \<^verbatim>\<open>undefined\<close>.\<close>

fun opt_chain :: "json option \<Rightarrow> string \<Rightarrow> json option" where
  "opt_chain (Some (JObj ms)) k = map_of ms k"
| "opt_chain v k = None"

text \<open>\<^verbatim>\<open>v?.[0]\<close>: the first element of an array, the first character of a string.\<close>

fun opt_index0 :: "json option \<Rightarrow> json option" where
  "opt_index0 (Some (JArr (x # xs))) = Some x"
| "opt_index0 (Some (JStr (c # cs))) = Some (JStr [c])"
| "opt_index0 (Some (JObj ms)) = map_of ms ''0''"
| "opt_index0 v = None"

fun is_string :: "json option \<Rightarrow> bool" where
  "is_string (Some (JStr s)) = True"
| "is_string v = False"

text \<open>\<^verbatim>\<open>typeof v === 'object'\<close> holds of objects, arrays and \<^verbatim>\<open>null\<close>.\<close>

fun is_object :: "json option \<Rightarrow> bool" where
  "is_object (Some (JObj ms)) = True"
| "is_object (Some (JArr xs)) = True"
| "is_object (Some JNull) = True"
| "is_object v = False"

text \<open>\<^verbatim>\<open>v === 'text'\<close>.\<close>

definition is_text :: "json option \<Rightarrow> string \<Rightarrow> bool" where
  "is_text v t = (v = Some (JStr t))"

subsection \<open>Text\<close>

text \<open>
  Strings are sequences of 8-bit characters here; the case mappings act on the
  ASCII letters, which is all the fixed vocabularies of the code contain.
\<close>

definition toLowerCase_char :: "char \<Rightarrow> char" where
  "toLowerCase_char c =
     (let n = of_char c :: nat in if 65 \<le> n \<and> n \<le> 90 then char_of (n + 32) else c)"

definition toUpperCase_char :: "char \<Rightarrow> char" where
  "toUpperCase_char c =
     (let n = of_char c :: nat in if 97 \<le> n \<and> n \<le> 122 then char_of (n - 32) else c)"

definition toLowerCase :: "string \<Rightarrow> string" where
  "toLowerCase s = map toLowerCase_char s"

definition startsWith :: "string \<Rightarrow> string \<Rightarrow> bool" where
  "startsWith s t = (take (length t) s = t)"

fun str_includes :: "string \<Rightarrow> string \<Rightarrow> bool" where
  "str_includes [] t = (t = [])"
| "str_includes (c # cs) t = (startsWith (c # cs) t \<or> str_includes cs t)"

text \<open>\<^verbatim>\<open>s.split(sep)\<close> for a one-character separator: never empty, \<^verbatim>\<open>''.split(' ')\<close> is \<^verbatim>\<open>['']\<close>.\<close>

fun split :: "char \<Rightarrow> string \<Rightarrow> string list" where
  "split sep [] = [[]]"
| "split sep (c # cs) =
     (if c = sep then [] # split sep cs
      else (case split sep cs of
              [] \<Rightarrow> [[c]]
            | w # ws \<Rightarrow> (c # w) # ws))"

fun join :: "string \<Rightarrow> string list \<Rightarrow> string" where
  "join sep [] = []"
| "join sep [w] = w"
| "join sep (w # ws) = w @ sep @ join sep ws"

text \<open>\<^verbatim>\<open>s.trim()\<close>, on the ASCII white space.\<close>

definition is_space :: "char \<Rightarrow> bool" where
  "is_space c = (of_char c \<in> {9, 10, 11, 12, 13, 32 :: nat})"

definition trim :: "string \<Rightarrow> string" where
  "trim s = rev (dropWhile is_space (rev (dropWhile is_space s)))"

text \<open>Decimal text of a number, as a template literal or \<^verbatim>\<open>String(n)\<close> writes it.\<close>

function show_nat :: "nat \<Rightarrow> string" where
  "show_nat n =
     (if n < 10 then [char_of (48 + n)]
      else show_nat (n div 10) @ [char_of (48 + n mod 10)])"
  by pat_completeness auto
termination
  by (relation "measure id") auto

declare show_nat.simps [simp del]

definition show_int :: "int \<Rightarrow> string" where
  "show_int i = (if i < 0 then CHR ''-'' # show_nat (nat (- i)) else show_nat (nat i))"

text \<open>
  \<^verbatim>\<open>String(v)\<close>, which a template literal and \<^verbatim>\<open>Array.prototype.join\<close> apply too. An
  array is its elements joined by commas, with \<^verbatim>\<open>null\<close> elements left empty.
\<close>

fun js_String :: "json \<Rightarrow> string"
  and js_element :: "json \<Rightarrow> string" where
  "js_String JNull = ''null''"
| "js_String (JBool b) = (if b then ''true'' else ''false'')"
| "js_String (JNum n) = show_int n"
| "js_String (JStr s) = s"
| "js_String (JArr xs) = join '','' (map js_element xs)"
| "js_String (JObj ms) = ''[object Object]''"
| "js_element v = (if v = JNull then [] else js_String v)"

text \<open>\<^verbatim>\<open>`${v}`\<close> of a value that may be \<^verbatim>\<open>undefined\<close>.\<close>

fun template :: "json option \<Rightarrow> string" where
  "template None = ''undefined''"
| "template (Some v) = js_String v"

text \<open>\<^verbatim>\<open>xs.join(sep)\<close> on an array of values.\<close>

definition join_values :: "string \<Rightarrow> json list \<Rightarrow> string" where
  "join_values sep xs = join sep (map js_element xs)"

text \<open>
  The built-ins of the runtime that the code calls and that are not modelled
  here are parameters: \<open>JSON_parse\<close> is the graph of \<^verbatim>\<open>JSON.parse\<close> on texts
  (\<open>None\<close> where it throws a SyntaxError), \<open>JSON_stringify\<close> is
  \<^verbatim>\<open>JSON.stringify(v)\<close> and \<open>JSON_stringify_pretty\<close> is \<^verbatim>\<open>JSON.stringify(v, null, 2)\<close>,
  both on defined values (\<^verbatim>\<open>JSON.stringify(undefined)\<close> is \<^verbatim>\<open>undefined\<close>), and \<open>toBase64\<close>
  is \<^verbatim>\<open>buffer.toString('base64')\<close> on the bytes of a buffer.
\<close>

record runtime =
  JSON_parse :: "string \<rightharpoonup> json"
  JSON_stringify :: "json \<Rightarrow> string"
  JSON_stringify_pretty :: "json \<Rightarrow> string"
  toBase64 :: "string \<Rightarrow> string"

text \<open>\<^verbatim>\<open>JSON.parse(v)\<close>: the argument is converted to text first.\<close>

definition parse_json :: "runtime \<Rightarrow> json \<Rightarrow> js_error + json" where
  "parse_json rt v =
     (case JSON_parse rt (js_String v) of
        None \<Rightarrow> Inl (SyntaxError ''Unexpected token'')
      | Some d \<Rightarrow> Inr d)"

section \<open>Backoff retrier (backend/src/utils/retry.ts)\<close>

record RetryOptions =
  maxRetries :: int
  initialDelay :: int
  maxDelay :: int
  backoffMultiplier :: int

definition defaultOptions :: RetryOptions where
  "defaultOptions =
     \<lparr> maxRetries = 3, initialDelay = 1000, maxDelay = 10000, backoffMultiplier = 2 \<rparr>"

text \<open>
  The \<^verbatim>\<open>for\<close> loop of \<^verbatim>\<open>retryWithBackoff\<close>. The operation \<open>fn\<close> is an effectful
  computation on a state \<open>'s\<close>: it returns its outcome (\<open>Inl\<close> a thrown error,
  \<open>Inr\<close> the value) and the state it leaves behind. \<open>sleep d\<close> is the effect of
  \<^verbatim>\<open>await new Promise(resolve => setTimeout(resolve, d))\<close> on the state.
\<close>

function retry_loop ::
  "('s \<Rightarrow> (js_error + 'a) \<times> 's) \<Rightarrow> (int \<Rightarrow> 's \<Rightarrow> 's) \<Rightarrow> RetryOptions \<Rightarrow>
   int \<Rightarrow> int \<Rightarrow> js_error option \<Rightarrow> 's \<Rightarrow> (js_error + 'a) \<times> 's" where
  "retry_loop fn sleep opts attempt delay lastError s =
     (if attempt \<le> maxRetries opts then
        (case fn s of
           (Inr v, s') \<Rightarrow> (Inr v, s')
         | (Inl err, s') \<Rightarrow>
             (if attempt = maxRetries opts then (Inl err, s')
              else retry_loop fn sleep opts (attempt + 1)
                     (min (delay * backoffMultiplier opts) (maxDelay opts))
                     (Some err) (sleep delay s')))
      else
        (case lastError of
           Some err \<Rightarrow> (Inl err, s)
         | None \<Rightarrow> (Inl (Error ''Retry failed''), s)))"
  by pat_completeness auto
termination
  by (relation "measure (\<lambda>(fn, sleep, opts, attempt, delay, lastError, s).
                   nat (maxRetries opts + 1 - attempt))") auto

declare retry_loop.simps [simp del]

definition retryWithBackoff ::
  "('s \<Rightarrow> (js_error + 'a) \<times> 's) \<Rightarrow> (int \<Rightarrow> 's \<Rightarrow> 's) \<Rightarrow> RetryOptions \<Rightarrow>
   's \<Rightarrow> (js_error + 'a) \<times> 's" where
  "retryWithBackoff fn sleep opts s =
     retry_loop fn sleep opts 0 (initialDelay opts) None s"

section \<open>Style attribute extractor and profile namer (backend/src/utils/profileNameGenerator.ts)\<close>

definition bind_result :: "js_error + 'a \<Rightarrow> ('a \<Rightarrow> js_error + 'b) \<Rightarrow> js_error + 'b" where
  "bind_result r f = (case r of Inl e \<Rightarrow> Inl e | Inr x \<Rightarrow> f x)"

record StyleAttributes =
  lighting :: "string list option"
  colors :: "string list option"
  mood :: "string list option"
  atmosphere :: "string list option"
  time :: "string list option"
  weather :: "string list option"
  location :: "string list option"
  technical :: "string list option"

text \<open>The object \<^verbatim>\<open>{}\<close>, and the object with every category set to \<^verbatim>\<open>[]\<close>.\<close>

definition no_attributes :: StyleAttributes where
  "no_attributes =
     \<lparr> lighting = None, colors = None, mood = None, atmosphere = None,
       time = None, weather = None, location = None, technical = None \<rparr>"

definition empty_attributes :: StyleAttributes where
  "empty_attributes =
     \<lparr> lighting = Some [], colors = Some [], mood = Some [], atmosphere = Some [],
       time = Some [], weather = Some [], location = Some [], technical = Some [] \<rparr>"

text \<open>
  \<^verbatim>\<open>extractKeywords(text, keywords)\<close>. The parameter is declared a string, but the
  callers pass what they read from the decoded document: \<^verbatim>\<open>text.toLowerCase()\<close>
  throws a TypeError on anything that is not a string.
\<close>

fun extractKeywords :: "json option \<Rightarrow> string list \<Rightarrow> js_error + string list" where
  "extractKeywords (Some (JStr text)) keywords =
     Inr (filter (\<lambda>keyword. str_includes (toLowerCase text) (toLowerCase keyword)) keywords)"
| "extractKeywords v keywords = Inl (TypeError ''text.toLowerCase is not a function'')"

definition coolColors :: "string list" where
  "coolColors = [''blue'', ''cyan'', ''teal'', ''turquoise'',
                 ''#0'', ''#1'', ''#2'', ''#3'', ''#4'', ''#5'']"

definition warmColors :: "string list" where
  "warmColors = [''red'', ''orange'', ''yellow'', ''gold'', ''#f'', ''#e'', ''#d'', ''#c'']"

fun extractColorDescriptors :: "json option \<Rightarrow> string list" where
  "extractColorDescriptors (Some (JArr colorData)) =
     (let colors = map (\<lambda>c. toLowerCase (js_String c)) colorData;
          hasCool = list_ex (\<lambda>c. list_ex (\<lambda>cool. str_includes c cool) coolColors) colors;
          hasWarm = list_ex (\<lambda>c. list_ex (\<lambda>warm. str_includes c warm) warmColors) colors
      in (if hasCool \<and> \<not> hasWarm then [''cool''] else [])
       @ (if hasWarm \<and> \<not> hasCool then [''warm''] else [])
       @ (if hasCool \<and> hasWarm then [''balanced''] else [])
       @ (if list_ex (\<lambda>c. str_includes c ''blue'') colors then [''blue''] else [])
       @ (if list_ex (\<lambda>c. str_includes c ''gold'' \<or> str_includes c ''yellow'') colors
          then [''golden''] else [])
       @ (if list_ex (\<lambda>c. str_includes c ''gray'' \<or> str_includes c ''grey'') colors
          then [''neutral''] else []))"
| "extractColorDescriptors (Some (JStr colorData)) =
     filter (\<lambda>keyword. str_includes (toLowerCase colorData) (toLowerCase keyword))
       [''cool'', ''warm'', ''vibrant'', ''muted'', ''pastel'', ''bold'', ''neutral'']"
| "extractColorDescriptors v = []"

text \<open>\<^verbatim>\<open>typeof v === 'string' ? v : JSON.stringify(v)\<close>, for a truthy \<open>v\<close>.\<close>

fun text_or_stringify :: "runtime \<Rightarrow> json option \<Rightarrow> json option" where
  "text_or_stringify rt (Some (JStr s)) = Some (JStr s)"
| "text_or_stringify rt (Some v) = Some (JStr (JSON_stringify rt v))"
| "text_or_stringify rt None = None"

text \<open>
  \<^verbatim>\<open>parsed.k1 || parsed.k2 || ...\<close>: the first truthy member, else the last one read.
\<close>

fun first_truthy :: "json \<Rightarrow> string list \<Rightarrow> js_error + json option" where
  "first_truthy parsed [] = Inr None"
| "first_truthy parsed [k] = read_prop parsed k"
| "first_truthy parsed (k # ks) =
     bind_result (read_prop parsed k)
       (\<lambda>v. if truthy_opt v then Inr v else first_truthy parsed ks)"

text \<open>
  One \<^verbatim>\<open>if (parsed.k1 || ...) { attributes.c = extract(parsed.k1 || ...) }\<close> block:
  the category stays \<^verbatim>\<open>[]\<close> when no member is truthy.
\<close>

definition category ::
  "json \<Rightarrow> string list \<Rightarrow> (json option \<Rightarrow> js_error + string list) \<Rightarrow> js_error + string list" where
  "category parsed keys extract =
     bind_result (first_truthy parsed keys)
       (\<lambda>v. if truthy_opt v then extract v else Inr [])"

text \<open>
  The body of the \<^verbatim>\<open>try\<close> block of \<^verbatim>\<open>extractStyleAttributes\<close>, from the decoded
  document on, one block after the other as in the source; the first throw ends it.
\<close>

definition attributes_of :: "runtime \<Rightarrow> json \<Rightarrow> js_error + StyleAttributes" where
  "attributes_of rt parsed =
     bind_result (category parsed [''lighting'']
       (\<lambda>v. extractKeywords (text_or_stringify rt v)
          [''warm'', ''cold'', ''soft'', ''harsh'', ''natural'', ''artificial'', ''golden'',
           ''blue'', ''dramatic'', ''even'', ''high contrast'', ''low key'', ''bright'',
           ''dim''])) (\<lambda>a_lighting.
     bind_result (category parsed [''colors'', ''color_palette'', ''palette'']
       (\<lambda>v. Inr (extractColorDescriptors v))) (\<lambda>a_colors.
     bind_result (category parsed [''mood'', ''vibe'']
       (\<lambda>v. extractKeywords v
          [''serene'', ''dramatic'', ''peaceful'', ''energetic'', ''calm'', ''vibrant'',
           ''moody'', ''cheerful'', ''melancholic'', ''mysterious'', ''playful'',
           ''elegant''])) (\<lambda>a_mood.
     bind_result (category parsed [''atmosphere'']
       (\<lambda>v. extractKeywords v
          [''crisp'', ''hazy'', ''foggy'', ''clear'', ''ethereal'', ''intimate'', ''spacious'',
           ''cozy'', ''urban'', ''rural''])) (\<lambda>a_atmosphere.
     bind_result (category parsed [''time_of_day'', ''time'']
       (\<lambda>v. extractKeywords v
          [''morning'', ''afternoon'', ''evening'', ''night'', ''dawn'', ''dusk'', ''twilight'',
           ''golden hour'', ''blue hour'', ''midday''])) (\<lambda>a_time.
     bind_result (category parsed [''weather'']
       (\<lambda>v. extractKeywords v
          [''sunny'', ''cloudy'', ''rainy'', ''snowy'', ''foggy'', ''overcast'', ''clear'',
           ''stormy''])) (\<lambda>a_weather.
     bind_result (category parsed [''environment'', ''location'', ''setting'']
       (\<lambda>v. extractKeywords v
          [''urban'', ''city'', ''street'', ''nature'', ''indoor'', ''outdoor'', ''studio'',
           ''landscape'', ''portrait'', ''architectural''])) (\<lambda>a_location.
     bind_result (category parsed [''technical'', ''photography'', ''camera'']
       (\<lambda>v. extractKeywords (text_or_stringify rt v)
          [''shallow depth'', ''bokeh'', ''wide angle'', ''telephoto'', ''macro'',
           ''long exposure'', ''sharp''])) (\<lambda>a_technical.
     Inr \<lparr> lighting = Some a_lighting, colors = Some a_colors, mood = Some a_mood,
           atmosphere = Some a_atmosphere, time = Some a_time, weather = Some a_weather,
           location = Some a_location, technical = Some a_technical \<rparr>))))))))"

text \<open>
  \<^verbatim>\<open>extractStyleAttributes\<close>: the \<^verbatim>\<open>try\<close> block decodes the text and extracts; the
  \<^verbatim>\<open>catch\<close> block answers every throw with \<^verbatim>\<open>{}\<close>. The result is \<open>Inr\<close> of the
  returned object, or \<open>Inl\<close> of an error leaving the function.
\<close>

definition extractStyleAttributes :: "runtime \<Rightarrow> json \<Rightarrow> js_error + StyleAttributes" where
  "extractStyleAttributes rt structuredPrompt =
     (case bind_result (parse_json rt structuredPrompt) (attributes_of rt) of
        Inr attributes \<Rightarrow> Inr attributes
      | Inl error \<Rightarrow> Inr no_attributes)"

record prompt_item =
  structured_prompt :: json

text \<open>
  \<^verbatim>\<open>aggregateAttributes\<close>. \<open>merge_field\<close> is the body of the \<^verbatim>\<open>forEach\<close> for one
  key: \<^verbatim>\<open>{}\<close> has no keys, so nothing is merged from it. \<open>dedupe\<close> is
  \<^verbatim>\<open>Array.from(new Set(xs))\<close>, which keeps the first occurrence of each value.
\<close>

definition merge_field :: "string list option \<Rightarrow> string list option \<Rightarrow> string list option" where
  "merge_field acc attr =
     (case (attr, acc) of
        (Some xs, Some ys) \<Rightarrow> Some (ys @ xs)
      | _ \<Rightarrow> acc)"

definition merge_attributes :: "StyleAttributes \<Rightarrow> StyleAttributes \<Rightarrow> StyleAttributes" where
  "merge_attributes allAttributes attrs =
     \<lparr> lighting = merge_field (lighting allAttributes) (lighting attrs),
       colors = merge_field (colors allAttributes) (colors attrs),
       mood = merge_field (mood allAttributes) (mood attrs),
       atmosphere = merge_field (atmosphere allAttributes) (atmosphere attrs),
       time = merge_field (time allAttributes) (time attrs),
       weather = merge_field (weather allAttributes) (weather attrs),
       location = merge_field (location allAttributes) (location attrs),
       technical = merge_field (technical allAttributes) (technical attrs) \<rparr>"

definition dedupe :: "string list \<Rightarrow> string list" where
  "dedupe xs = fold (\<lambda>x seen. if x \<in> set seen then seen else seen @ [x]) xs []"

definition dedupe_attributes :: "StyleAttributes \<Rightarrow> StyleAttributes" where
  "dedupe_attributes a =
     \<lparr> lighting = map_option dedupe (lighting a),
       colors = map_option dedupe (colors a),
       mood = map_option dedupe (mood a),
       atmosphere = map_option dedupe (atmosphere a),
       time = map_option dedupe (time a),
       weather = map_option dedupe (weather a),
       location = map_option dedupe (location a),
       technical = map_option dedupe (technical a) \<rparr>"

fun aggregate_loop ::
  "runtime \<Rightarrow> StyleAttributes \<Rightarrow> 'a prompt_item_scheme list \<Rightarrow> js_error + StyleAttributes" where
  "aggregate_loop rt allAttributes [] = Inr allAttributes"
| "aggregate_loop rt allAttributes (prompt # rest) =
     bind_result (extractStyleAttributes rt (structured_prompt prompt))
       (\<lambda>attrs. aggregate_loop rt (merge_attributes allAttributes attrs) rest)"

definition aggregateAttributes ::
  "runtime \<Rightarrow> 'a prompt_item_scheme list \<Rightarrow> js_error + StyleAttributes" where
  "aggregateAttributes rt structuredPrompts =
     bind_result (aggregate_loop rt empty_attributes structuredPrompts)
       (\<lambda>allAttributes. Inr (dedupe_attributes allAttributes))"

text \<open>
  \<^verbatim>\<open>getTopAttributes\<close>. The \<^verbatim>\<open>Map\<close> of frequencies is an association list in
  insertion order; \<^verbatim>\<open>sort((a, b) => b[1] - a[1])\<close> is a stable sort by descending
  count.
\<close>

definition add_values :: "string list option \<Rightarrow> string list" where
  "add_values v = (case v of None \<Rightarrow> [] | Some xs \<Rightarrow> xs)"

fun count_value :: "string \<Rightarrow> (string \<times> nat) list \<Rightarrow> (string \<times> nat) list" where
  "count_value val [] = [(val, 1)]"
| "count_value val ((k, n) # rest) =
     (if k = val then (k, n + 1) # rest else (k, n) # count_value val rest)"

definition frequency_of :: "string list \<Rightarrow> (string \<times> nat) list" where
  "frequency_of allValues = fold count_value allValues []"

definition getTopAttributes :: "StyleAttributes \<Rightarrow> nat \<Rightarrow> string list" where
  "getTopAttributes attributes limit =
     (let allValues =
            add_values (time attributes) @ add_values (weather attributes)
          @ add_values (location attributes) @ add_values (lighting attributes)
          @ add_values (mood attributes) @ add_values (colors attributes)
          @ add_values (atmosphere attributes) @ add_values (technical attributes)
      in map fst (take limit (sort_key (\<lambda>entry. - int (snd entry)) (frequency_of allValues))))"

definition capitalizeWord :: "string \<Rightarrow> string" where
  "capitalizeWord word = (case word of [] \<Rightarrow> [] | c # cs \<Rightarrow> toUpperCase_char c # cs)"

definition capitalizeWords :: "string \<Rightarrow> string" where
  "capitalizeWords text = join '' '' (map capitalizeWord (split (CHR '' '') text))"

text \<open>
  The \<^verbatim>\<open>while (words.length > 2 && words.join(' ').length > maxLength) words.pop()\<close>
  loop of \<^verbatim>\<open>generateProfileName\<close>.
\<close>

function trim_words :: "int \<Rightarrow> string list \<Rightarrow> string list" where
  "trim_words maxLength words =
     (if length words > 2 \<and> int (length (join '' '' words)) > maxLength
      then trim_words maxLength (butlast words)
      else words)"
  by pat_completeness auto
termination
  by (relation "measure (\<lambda>(maxLength, words). length words)") auto

declare trim_words.simps [simp del]

text \<open>
  \<^verbatim>\<open>generateProfileName(structuredPrompts, maxLength = 40)\<close>. The \<^verbatim>\<open>catch\<close> block
  answers a throw of the aggregation with \<^verbatim>\<open>'Style Profile'\<close>.
\<close>

definition generateProfileName :: "runtime \<Rightarrow> 'a prompt_item_scheme list \<Rightarrow> int \<Rightarrow> string" where
  "generateProfileName rt structuredPrompts maxLength =
     (if structuredPrompts = [] then ''Untitled Style''
      else
        (case aggregateAttributes rt structuredPrompts of
           Inl error \<Rightarrow> ''Style Profile''
         | Inr attributes \<Rightarrow>
             (let topAttributes = getTopAttributes attributes 4 in
              if topAttributes = [] then ''Custom Style Profile''
              else
                (let name = capitalizeWords (join '' '' topAttributes);
                     name = (if int (length name) > maxLength
                             then join '' '' (trim_words maxLength (split (CHR '' '') name))
                             else name)
                 in if name = [] then ''Style Profile'' else name))))"

definition default_maxLength :: int where
  "default_maxLength = 40"

section \<open>Style DNA parser (StyleDNA, parseStructuredPrompt, createStyleTransferPrompt)\<close>

text \<open>
  A field of \<open>StyleDNA\<close> is \<open>None\<close> when the object has no such key. The field names
  carry the prefix \<open>dna_\<close> (\<open>tech_\<close> in the nested object) to keep them apart from
  the categories of \<open>StyleAttributes\<close>.
\<close>

record technical_dna =
  tech_depth_of_field :: "json option"
  tech_focus :: "json option"
  tech_lens :: "json option"
  tech_aperture :: "json option"
  tech_iso :: "json option"
  tech_shutter_speed :: "json option"

record StyleDNA =
  dna_lighting :: "json option"
  dna_color_palette :: "json option"
  dna_colors :: "json option"
  dna_mood :: "json option"
  dna_atmosphere :: "json option"
  dna_tone :: "json option"
  dna_technical :: "technical_dna option"
  dna_artistic_style :: "json option"
  dna_photographic_style :: "json option"
  dna_rendering_style :: "json option"
  dna_time_of_day :: "json option"
  dna_season :: "json option"
  dna_weather :: "json option"
  dna_original :: "json option"

text \<open>\<^verbatim>\<open>Object.keys(styleDNA).length\<close>.\<close>

definition count_key :: "'a option \<Rightarrow> nat" where
  "count_key v = (case v of None \<Rightarrow> 0 | Some x \<Rightarrow> 1)"

definition keys_length :: "StyleDNA \<Rightarrow> nat" where
  "keys_length d =
     count_key (dna_lighting d) + count_key (dna_color_palette d) + count_key (dna_colors d)
   + count_key (dna_mood d) + count_key (dna_atmosphere d) + count_key (dna_tone d)
   + count_key (dna_technical d) + count_key (dna_artistic_style d)
   + count_key (dna_photographic_style d) + count_key (dna_rendering_style d)
   + count_key (dna_time_of_day d) + count_key (dna_season d) + count_key (dna_weather d)
   + count_key (dna_original d)"

text \<open>
  A run of \<^verbatim>\<open>if (src.k) field = src.k\<close> statements on one field, in the order of the
  source: the last truthy member wins. The reads are on a value that is not
  \<^verbatim>\<open>null\<close>, so none of them throws.
\<close>

definition assign_truthy :: "json \<Rightarrow> string list \<Rightarrow> json option" where
  "assign_truthy src keys =
     fold (\<lambda>k field. if truthy_opt (opt_chain (Some src) k) then opt_chain (Some src) k else field)
       keys None"

definition technical_of :: "json \<Rightarrow> technical_dna option" where
  "technical_of parsed =
     (let techSource = js_or (js_or (opt_chain (Some parsed) ''technical'')
                                    (opt_chain (Some parsed) ''camera''))
                             (opt_chain (Some parsed) ''photography'')
      in case techSource of
           None \<Rightarrow> None
         | Some src \<Rightarrow>
             if truthy src then
               Some \<lparr> tech_depth_of_field = assign_truthy src [''depth_of_field'', ''dof''],
                      tech_focus = assign_truthy src [''focus''],
                      tech_lens = assign_truthy src [''lens''],
                      tech_aperture = assign_truthy src [''aperture''],
                      tech_iso = assign_truthy src [''iso''],
                      tech_shutter_speed = assign_truthy src [''shutter_speed''] \<rparr>
             else None)"

text \<open>
  The body of the \<^verbatim>\<open>try\<close> block after the decoding. \<^verbatim>\<open>Object.keys(parsed)\<close> in the
  first logging statement throws a TypeError on \<^verbatim>\<open>null\<close>.
\<close>

definition dna_of :: "json \<Rightarrow> js_error + StyleDNA" where
  "dna_of parsed =
     (if parsed = JNull then Inl (TypeError ''Cannot convert undefined or null to object'')
      else Inr
        \<lparr> dna_lighting = assign_truthy parsed [''lighting'', ''light'', ''illumination''],
          dna_color_palette = assign_truthy parsed [''color_palette'', ''palette''],
          dna_colors = assign_truthy parsed [''colors''],
          dna_mood = assign_truthy parsed [''mood'', ''vibe''],
          dna_atmosphere = assign_truthy parsed [''atmosphere''],
          dna_tone = assign_truthy parsed [''tone''],
          dna_technical = technical_of parsed,
          dna_artistic_style = assign_truthy parsed [''artistic_style'', ''style''],
          dna_photographic_style = assign_truthy parsed [''photographic_style''],
          dna_rendering_style = assign_truthy parsed [''rendering_style''],
          dna_time_of_day = assign_truthy parsed [''time_of_day'', ''time''],
          dna_season = assign_truthy parsed [''season''],
          dna_weather = assign_truthy parsed [''weather''],
          dna_original = Some parsed \<rparr>)"

definition only_original :: "json \<Rightarrow> StyleDNA" where
  "only_original v =
     \<lparr> dna_lighting = None, dna_color_palette = None, dna_colors = None, dna_mood = None,
       dna_atmosphere = None, dna_tone = None, dna_technical = None,
       dna_artistic_style = None, dna_photographic_style = None,
       dna_rendering_style = None, dna_time_of_day = None, dna_season = None,
       dna_weather = None, dna_original = Some v \<rparr>"

text \<open>
  \<^verbatim>\<open>parseStructuredPrompt\<close>: the \<^verbatim>\<open>catch\<close> block answers every throw with
  \<^verbatim>\<open>{ original: structuredPromptStr }\<close>.
\<close>

definition parseStructuredPrompt :: "runtime \<Rightarrow> json \<Rightarrow> js_error + StyleDNA" where
  "parseStructuredPrompt rt structuredPromptStr =
     (case bind_result (parse_json rt structuredPromptStr) dna_of of
        Inr styleDNA \<Rightarrow> Inr styleDNA
      | Inl error \<Rightarrow> Inr (only_original structuredPromptStr))"

text \<open>\<^verbatim>\<open>styleDNAToPrompt\<close>: the parts pushed by each block, in the order of the source.\<close>

definition labelled :: "string \<Rightarrow> json option \<Rightarrow> string list" where
  "labelled label v = (if truthy_opt v then [label @ '': '' @ template v] else [])"

definition kept :: "json option \<Rightarrow> json list" where
  "kept v = (case v of None \<Rightarrow> [] | Some x \<Rightarrow> if truthy x then [x] else [])"

definition lighting_parts :: "json option \<Rightarrow> string list" where
  "lighting_parts l =
     (if truthy_opt l then
        (if is_string l then [''lighting: '' @ template l]
         else if is_object l then
           (let cleanLighting = kept (opt_chain l ''conditions'') @ kept (opt_chain l ''quality'')
                              @ kept (opt_chain l ''type'')
            in if length cleanLighting > 0
               then [''lighting: '' @ join_values '', '' cleanLighting] else [])
         else [])
      else [])"

definition color_parts :: "runtime \<Rightarrow> json option \<Rightarrow> string list" where
  "color_parts rt colorValue =
     (case colorValue of
        None \<Rightarrow> []
      | Some c \<Rightarrow>
          if truthy c then
            [''color palette: '' @
               (case c of JArr xs \<Rightarrow> join_values '', '' xs | _ \<Rightarrow> JSON_stringify rt c)]
          else [])"

definition technical_parts :: "technical_dna option \<Rightarrow> string list" where
  "technical_parts t =
     (case t of
        None \<Rightarrow> []
      | Some tech \<Rightarrow>
          labelled ''depth of field'' (tech_depth_of_field tech)
        @ labelled ''focus'' (tech_focus tech)
        @ labelled ''lens'' (tech_lens tech)
        @ labelled ''aperture'' (tech_aperture tech))"

definition styleDNAToPrompt :: "runtime \<Rightarrow> StyleDNA \<Rightarrow> string" where
  "styleDNAToPrompt rt styleDNA =
     join '', ''
       ( lighting_parts (dna_lighting styleDNA)
       @ color_parts rt (js_or (dna_color_palette styleDNA) (dna_colors styleDNA))
       @ labelled ''mood'' (dna_mood styleDNA)
       @ labelled ''atmosphere'' (dna_atmosphere styleDNA)
       @ labelled ''tone'' (dna_tone styleDNA)
       @ technical_parts (dna_technical styleDNA)
       @ labelled ''style'' (js_or (js_or (dna_artistic_style styleDNA)
                                           (dna_photographic_style styleDNA))
                                    (dna_rendering_style styleDNA))
       @ labelled ''time'' (dna_time_of_day styleDNA)
       @ labelled ''season'' (dna_season styleDNA)
       @ labelled ''weather'' (dna_weather styleDNA))"

definition createStyleTransferPrompt :: "runtime \<Rightarrow> json \<Rightarrow> StyleDNA \<Rightarrow> string" where
  "createStyleTransferPrompt rt newSubject styleDNA =
     (let styleDescription = styleDNAToPrompt rt styleDNA in
      if styleDescription \<noteq> []
      then js_String newSubject @ '', rendered with: '' @ styleDescription
      else js_String newSubject
           @ '', maintaining the same visual style, lighting, and atmosphere'')"

section \<open>External API client (BriaApiClient)\<close>

subsection \<open>The remote service and the timer\<close>

text \<open>
  What the code does to the outside is recorded in a trace of events. The remote
  service is a script: \<open>remote k\<close> is the outcome of the \<open>k\<close>-th HTTP call made
  (from 0), either the error thrown by the HTTP client or the response. Any
  service whose answers depend on the requests is such a script, since the
  requests are determined by the code and the earlier answers.
\<close>

record response =
  status :: nat
  data :: json

datatype event =
    Post string json
  | Get string
  | Sleep int

record world =
  remote :: "nat \<Rightarrow> js_error + response"
  served :: nat
  trace :: "event list"

definition http :: "event \<Rightarrow> world \<Rightarrow> (js_error + response) \<times> world" where
  "http request w =
     (remote w (served w), w\<lparr> served := Suc (served w), trace := trace w @ [request] \<rparr>)"

definition sleep :: "int \<Rightarrow> world \<Rightarrow> world" where
  "sleep d w = w\<lparr> trace := trace w @ [Sleep d] \<rparr>"

text \<open>\<^verbatim>\<open>a || d\<close> with a defined right operand.\<close>

definition or_else :: "json option \<Rightarrow> json \<Rightarrow> json" where
  "or_else a d = (case a of None \<Rightarrow> d | Some v \<Rightarrow> if truthy v then v else d)"

definition message_of :: "js_error \<Rightarrow> string" where
  "message_of e =
     (case e of
        Error m \<Rightarrow> m
      | TypeError m \<Rightarrow> m
      | SyntaxError m \<Rightarrow> m
      | AxiosError c m r \<Rightarrow> m)"

subsection \<open>Polling loops\<close>

text \<open>
  One pass through the \<^verbatim>\<open>try\<close> block of a polling loop either returns to the
  caller, throws into the \<^verbatim>\<open>catch\<close> block of the loop, or falls through to the
  next iteration.
\<close>

datatype 'a pass = Return 'a | Throw js_error | Next

record StyleExtractResponse = prompt_item +
  seed :: json
  imageIndex :: "nat option"

text \<open>
  \<^verbatim>\<open>{ seed: result.seed || 0, structured_prompt: result.structured_prompt || JSON.stringify(result) }\<close>
  with \<^verbatim>\<open>result = response.data.result || response.data\<close>, for a body that is not \<^verbatim>\<open>null\<close>.
\<close>

definition style_result :: "runtime \<Rightarrow> json \<Rightarrow> StyleExtractResponse" where
  "style_result rt body =
     (let result = or_else (opt_chain (Some body) ''result'') body in
      \<lparr> structured_prompt =
          or_else (opt_chain (Some result) ''structured_prompt'') (JStr (JSON_stringify rt result)),
        seed = or_else (opt_chain (Some result) ''seed'') (JNum 0),
        imageIndex = None \<rparr>)"

text \<open>\<^verbatim>\<open>statusUrl || `/status/${requestId}`\<close>.\<close>

definition status_url_of :: "json option \<Rightarrow> json option \<Rightarrow> string" where
  "status_url_of requestId statusUrl =
     js_String (or_else statusUrl (JStr (''/status/'' @ template requestId)))"

definition pollStyleExtractStatus_pass ::
  "runtime \<Rightarrow> json option \<Rightarrow> json option \<Rightarrow> world \<Rightarrow> StyleExtractResponse pass \<times> world" where
  "pollStyleExtractStatus_pass rt requestId statusUrl w =
     (case http (Get (status_url_of requestId statusUrl)) w of
        (Inl error, w') \<Rightarrow> (Throw error, w')
      | (Inr response, w') \<Rightarrow>
          (case read_prop (data response) ''status'' of
             Inl error \<Rightarrow> (Throw error, w')
           | Inr st \<Rightarrow>
               if is_text st ''COMPLETED'' then (Return (style_result rt (data response)), w')
               else if is_text st ''ERROR'' then
                 (Throw (Error (js_String
                    (or_else (opt_chain (opt_chain (Some (data response)) ''error'') ''message'')
                       (JStr ''Style extraction failed'')))), w')
               else (Next, sleep 2000 w')))"

function pollStyleExtractStatus_loop ::
  "runtime \<Rightarrow> json option \<Rightarrow> json option \<Rightarrow> nat \<Rightarrow> world \<Rightarrow>
   (js_error + StyleExtractResponse) \<times> world" where
  "pollStyleExtractStatus_loop rt requestId statusUrl i w =
     (if i < 30 then
        (case pollStyleExtractStatus_pass rt requestId statusUrl w of
           (Return r, w') \<Rightarrow> (Inr r, w')
         | (Throw error, w') \<Rightarrow>
             if i = 30 - 1 then (Inl (Error ''Polling timeout for style extraction''), w')
             else pollStyleExtractStatus_loop rt requestId statusUrl (i + 1) w'
         | (Next, w') \<Rightarrow> pollStyleExtractStatus_loop rt requestId statusUrl (i + 1) w')
      else (Inl (Error ''Polling timeout for style extraction''), w))"
  by pat_completeness auto
termination
  by (relation "measure (\<lambda>(rt, requestId, statusUrl, i, w). 30 - i)") auto

declare pollStyleExtractStatus_loop.simps [simp del]

definition pollStyleExtractStatus ::
  "runtime \<Rightarrow> json option \<Rightarrow> json option \<Rightarrow> world \<Rightarrow>
   (js_error + StyleExtractResponse) \<times> world" where
  "pollStyleExtractStatus rt requestId statusUrl w =
     pollStyleExtractStatus_loop rt requestId statusUrl 0 w"

record PreviewResponse =
  preview_requestId :: string
  preview_status :: string
  preview_images :: "json option"
  preview_error :: "json option"

definition pollPreviewStatus_pass :: "string \<Rightarrow> world \<Rightarrow> PreviewResponse pass \<times> world" where
  "pollPreviewStatus_pass requestId w =
     (case http (Get (''/fibo/status/'' @ requestId)) w of
        (Inl error, w') \<Rightarrow> (Throw error, w')
      | (Inr response, w') \<Rightarrow>
          (case read_prop (data response) ''status'' of
             Inl error \<Rightarrow> (Throw error, w')
           | Inr st \<Rightarrow>
               if is_text st ''completed'' then
                 (Return \<lparr> preview_requestId = requestId, preview_status = ''completed'',
                           preview_images =
                             Some (or_else (opt_chain (Some (data response)) ''images'') (JArr [])),
                           preview_error = None \<rparr>, w')
               else if is_text st ''failed'' then
                 (Return \<lparr> preview_requestId = requestId, preview_status = ''failed'',
                           preview_images = None,
                           preview_error =
                             Some (or_else (opt_chain (Some (data response)) ''error'')
                                     (JStr ''Generation failed'')) \<rparr>, w')
               else (Next, sleep 2000 w')))"

function pollPreviewStatus_loop ::
  "string \<Rightarrow> nat \<Rightarrow> world \<Rightarrow> (js_error + PreviewResponse) \<times> world" where
  "pollPreviewStatus_loop requestId i w =
     (if i < 30 then
        (case pollPreviewStatus_pass requestId w of
           (Return r, w') \<Rightarrow> (Inr r, w')
         | (Throw error, w') \<Rightarrow>
             if i = 30 - 1 then (Inl (Error ''Polling timeout''), w')
             else pollPreviewStatus_loop requestId (i + 1) w'
         | (Next, w') \<Rightarrow> pollPreviewStatus_loop requestId (i + 1) w')
      else (Inl (Error ''Polling timeout''), w))"
  by pat_completeness auto
termination
  by (relation "measure (\<lambda>(requestId, i, w). 30 - i)") auto

declare pollPreviewStatus_loop.simps [simp del]

definition pollPreviewStatus :: "string \<Rightarrow> world \<Rightarrow> (js_error + PreviewResponse) \<times> world" where
  "pollPreviewStatus requestId w = pollPreviewStatus_loop requestId 0 w"

record ImageGenerateRequest =
  req_structured_prompt :: "json option"
  req_prompt :: "json option"
  req_seed :: "json option"
  req_sync :: "json option"

record ImageGenerateResponse =
  image_url :: "json option"
  gen_seed :: json
  request_id :: "json option"

definition pollImageGeneration_pass ::
  "json option \<Rightarrow> json option \<Rightarrow> world \<Rightarrow> ImageGenerateResponse pass \<times> world" where
  "pollImageGeneration_pass requestId statusUrl w =
     (case http (Get (status_url_of requestId statusUrl)) w of
        (Inl error, w') \<Rightarrow> (Throw error, w')
      | (Inr response, w') \<Rightarrow>
          (case read_prop (data response) ''status'' of
             Inl error \<Rightarrow> (Throw error, w')
           | Inr st \<Rightarrow>
               if is_text st ''COMPLETED'' \<or> is_text st ''completed'' then
                 (let result = or_else (opt_chain (Some (data response)) ''result'') (data response)
                  in (Return \<lparr> image_url =
                                 js_or (opt_chain (Some result) ''image_url'')
                                       (opt_index0 (opt_chain (Some result) ''images'')),
                               gen_seed = or_else (opt_chain (Some result) ''seed'') (JNum 0),
                               request_id = requestId \<rparr>, w'))
               else if is_text st ''ERROR'' \<or> is_text st ''failed'' then
                 (Throw (Error (js_String
                    (or_else (opt_chain (opt_chain (Some (data response)) ''error'') ''message'')
                       (JStr ''Image generation failed'')))), w')
               else (Next, sleep 2000 w')))"

text \<open>\<^verbatim>\<open>axios.isAxiosError(error) && error.response?.status\<close>.\<close>

definition has_response_status :: "js_error \<Rightarrow> bool" where
  "has_response_status e =
     (case e of
        AxiosError c m (Some (st, d)) \<Rightarrow> st \<noteq> 0
      | _ \<Rightarrow> False)"

function pollImageGeneration_loop ::
  "json option \<Rightarrow> json option \<Rightarrow> nat \<Rightarrow> world \<Rightarrow>
   (js_error + ImageGenerateResponse) \<times> world" where
  "pollImageGeneration_loop requestId statusUrl i w =
     (if i < 60 then
        (case pollImageGeneration_pass requestId statusUrl w of
           (Return r, w') \<Rightarrow> (Inr r, w')
         | (Throw error, w') \<Rightarrow>
             if i = 60 - 1 then (Inl (Error ''Polling timeout for image generation''), w')
             else if has_response_status error then (Inl error, w')
             else pollImageGeneration_loop requestId statusUrl (i + 1) w'
         | (Next, w') \<Rightarrow> pollImageGeneration_loop requestId statusUrl (i + 1) w')
      else (Inl (Error ''Polling timeout for image generation''), w))"
  by pat_completeness auto
termination
  by (relation "measure (\<lambda>(requestId, statusUrl, i, w). 60 - i)") auto

declare pollImageGeneration_loop.simps [simp del]

definition pollImageGeneration ::
  "json option \<Rightarrow> json option \<Rightarrow> world \<Rightarrow> (js_error + ImageGenerateResponse) \<times> world" where
  "pollImageGeneration requestId statusUrl w = pollImageGeneration_loop requestId statusUrl 0 w"

subsection \<open>extractStyle\<close>

type_synonym buffer = string

text \<open>The \<^verbatim>\<open>images.map\<close> callback throws at the first empty buffer, counted from 1.\<close>

fun first_empty :: "nat \<Rightarrow> buffer list \<Rightarrow> nat option" where
  "first_empty index [] = None"
| "first_empty index (b # bs) = (if b = [] then Some (index + 1) else first_empty (index + 1) bs)"

definition is_network_code :: "string option \<Rightarrow> bool" where
  "is_network_code code =
     (code = Some ''ENOTFOUND'' \<or> code = Some ''ECONNREFUSED'' \<or> code = Some ''ETIMEDOUT'')"

definition cannot_connect :: "string \<Rightarrow> js_error" where
  "cannot_connect m =
     Error (''Cannot connect to Bria API: '' @ m
            @ ''. Please check your internet connection and API URL configuration.'')"

definition api_error :: "nat option \<Rightarrow> string \<Rightarrow> js_error" where
  "api_error statusCode errorMessage =
     Error (''Bria API error (''
            @ (case statusCode of None \<Rightarrow> ''undefined'' | Some n \<Rightarrow> show_nat n)
            @ ''): '' @ errorMessage)"

text \<open>The \<^verbatim>\<open>try\<close> block of the operation that \<^verbatim>\<open>extractStyle\<close> hands to the retrier.\<close>

definition extractStyle_try ::
  "runtime \<Rightarrow> buffer list \<Rightarrow> world \<Rightarrow> (js_error + StyleExtractResponse) \<times> world" where
  "extractStyle_try rt images w =
     (case first_empty 0 images of
        Some n \<Rightarrow> (Inl (Error (''Image '' @ show_nat n @ '' is empty or invalid'')), w)
      | None \<Rightarrow>
          (case images of
             [buf] \<Rightarrow>
               (case http (Post ''/structured_prompt/generate''
                             (JObj [(''images'', JArr [JStr (toBase64 rt buf)]),
                                    (''sync'', JBool False)])) w of
                  (Inl error, w') \<Rightarrow> (Inl error, w')
                | (Inr response, w') \<Rightarrow>
                    (case read_prop (data response) ''request_id'' of
                       Inl error \<Rightarrow> (Inl error, w')
                     | Inr requestId \<Rightarrow>
                         (let statusUrl = opt_chain (Some (data response)) ''status_url'' in
                          if status response = 202 \<and> truthy_opt statusUrl
                          then pollStyleExtractStatus rt requestId statusUrl w'
                          else (Inr (style_result rt (data response)), w'))))
           | _ \<Rightarrow>
               (Inl (Error ''Bria API v2 supports only 1 image per request. Please send images one at a time.''), w)))"

text \<open>The \<^verbatim>\<open>catch\<close> block: what is thrown on for the error caught.\<close>

definition extractStyle_catch :: "runtime \<Rightarrow> js_error \<Rightarrow> js_error" where
  "extractStyle_catch rt error =
     (case error of
        AxiosError code m resp \<Rightarrow>
          if is_network_code code then cannot_connect m
          else
            (let errorData = map_option snd resp;
                 errorMessage =
                   js_or (js_or (js_or (opt_chain errorData ''message'') (opt_chain errorData ''error''))
                                (if is_string errorData then errorData
                                 else map_option (\<lambda>d. JStr (JSON_stringify rt d)) errorData))
                         (Some (JStr m))
             in api_error (map_option fst resp) (template errorMessage))
      | _ \<Rightarrow> error)"

definition extractStyle_attempt ::
  "runtime \<Rightarrow> buffer list \<Rightarrow> world \<Rightarrow> (js_error + StyleExtractResponse) \<times> world" where
  "extractStyle_attempt rt images w =
     (case extractStyle_try rt images w of
        (Inr r, w') \<Rightarrow> (Inr r, w')
      | (Inl error, w') \<Rightarrow> (Inl (extractStyle_catch rt error), w'))"

definition extractStyle ::
  "runtime \<Rightarrow> buffer list \<Rightarrow> world \<Rightarrow> (js_error + StyleExtractResponse) \<times> world" where
  "extractStyle rt images w =
     retryWithBackoff (extractStyle_attempt rt images) sleep defaultOptions w"

subsection \<open>generateImage\<close>

text \<open>The payload object, with its keys in the order they are set.\<close>

definition generateImage_payload :: "ImageGenerateRequest \<Rightarrow> (string \<times> json) list" where
  "generateImage_payload request =
     [(''sync'', JBool (req_sync request \<noteq> Some (JBool False)))]
   @ (case req_structured_prompt request of
        Some v \<Rightarrow> if truthy v then [(''structured_prompt'', v)] else []
      | None \<Rightarrow> [])
   @ (case req_prompt request of
        Some v \<Rightarrow> if truthy v then [(''prompt'', v)] else []
      | None \<Rightarrow> [])
   @ (case req_seed request of
        Some v \<Rightarrow> [(''seed'', v)]
      | None \<Rightarrow> [])"

definition generateImage_try ::
  "ImageGenerateRequest \<Rightarrow> world \<Rightarrow> (js_error + ImageGenerateResponse) \<times> world" where
  "generateImage_try request w =
     (case http (Post ''/image/generate'' (JObj (generateImage_payload request))) w of
        (Inl error, w') \<Rightarrow> (Inl error, w')
      | (Inr response, w') \<Rightarrow>
          (case read_prop (data response) ''result'' of
             Inl error \<Rightarrow> (Inl error, w')
           | Inr r \<Rightarrow>
               (let requestId = opt_chain (Some (data response)) ''request_id'';
                    statusUrl = opt_chain (Some (data response)) ''status_url''
                in if status response = 202 \<and> truthy_opt statusUrl
                   then pollImageGeneration requestId statusUrl w'
                   else
                     (let result = or_else r (data response) in
                      (Inr \<lparr> image_url =
                               js_or (opt_chain (Some result) ''image_url'')
                                     (opt_index0 (opt_chain (Some result) ''images'')),
                             gen_seed =
                               or_else (js_or (opt_chain (Some result) ''seed'') (req_seed request))
                                 (JNum 0),
                             request_id = requestId \<rparr>, w')))))"

definition generateImage_catch :: "runtime \<Rightarrow> js_error \<Rightarrow> js_error" where
  "generateImage_catch rt error =
     (case error of
        AxiosError code m resp \<Rightarrow>
          if is_network_code code then cannot_connect m
          else
            (let errorData = map_option snd resp;
                 errorMessage =
                   (if is_string errorData then template errorData
                    else if truthy_opt (opt_chain errorData ''message'')
                    then template (opt_chain errorData ''message'')
                    else if truthy_opt (opt_chain errorData ''error'') then
                      (case opt_chain errorData ''error'' of
                         Some (JStr t) \<Rightarrow> t
                       | Some (JObj ms) \<Rightarrow> JSON_stringify_pretty rt (JObj ms)
                       | Some (JArr xs) \<Rightarrow> JSON_stringify_pretty rt (JArr xs)
                       | _ \<Rightarrow> [])
                    else m)
             in api_error (map_option fst resp) errorMessage)
      | _ \<Rightarrow> error)"

definition generateImage_attempt ::
  "runtime \<Rightarrow> ImageGenerateRequest \<Rightarrow> world \<Rightarrow> (js_error + ImageGenerateResponse) \<times> world" where
  "generateImage_attempt rt request w =
     (case generateImage_try request w of
        (Inr r, w') \<Rightarrow> (Inr r, w')
      | (Inl error, w') \<Rightarrow> (Inl (generateImage_catch rt error), w'))"

definition generateImage ::
  "runtime \<Rightarrow> ImageGenerateRequest \<Rightarrow> world \<Rightarrow> (js_error + ImageGenerateResponse) \<times> world" where
  "generateImage rt request w =
     retryWithBackoff (generateImage_attempt rt request) sleep defaultOptions w"

section \<open>Route handlers\<close>

text \<open>
  What a handler sends: \<^verbatim>\<open>res.status(code).json({ error, details, ... })\<close>, of which
  the status code, the \<^verbatim>\<open>error\<close> text and the \<^verbatim>\<open>details\<close> are kept (the other
  fields of the error body repeat these), or \<^verbatim>\<open>res.json(value)\<close> with status 200.
  The environment is what the handlers read from the process: the API key, the
  file size limit (\<^verbatim>\<open>MAX_FILE_SIZE\<close>, 10485760 by default) and the clock, read as
  one ISO timestamp.
\<close>

datatype 'a reply =
    ErrorReply nat string "json option"
  | JsonReply 'a

record env =
  BRIA_API_KEY :: "string option"
  MAX_FILE_SIZE :: nat
  now :: string

text \<open>\<^verbatim>\<open>getBriaClient\<close> throws when the key is missing or empty.\<close>

definition getBriaClient :: "env \<Rightarrow> js_error + unit" where
  "getBriaClient e =
     (case BRIA_API_KEY e of
        None \<Rightarrow> Inl (Error ''BRIA_API_KEY is not configured'')
      | Some k \<Rightarrow> if k = [] then Inl (Error ''BRIA_API_KEY is not configured'') else Inr ())"

text \<open>\<^verbatim>\<open>error.response?.status || 500\<close> and \<^verbatim>\<open>error.response?.data || {}\<close>.\<close>

definition status_of_error :: "js_error \<Rightarrow> nat" where
  "status_of_error e =
     (case e of
        AxiosError c m (Some (st, d)) \<Rightarrow> if st \<noteq> 0 then st else 500
      | _ \<Rightarrow> 500)"

definition details_of_error :: "js_error \<Rightarrow> json" where
  "details_of_error e =
     (case e of
        AxiosError c m (Some (st, d)) \<Rightarrow> if truthy d then d else JObj []
      | _ \<Rightarrow> JObj [])"

definition message_or_default :: "js_error \<Rightarrow> string" where
  "message_or_default e = (if message_of e = [] then ''Internal server error'' else message_of e)"

subsection \<open>POST /api/generate-image (backend/src/api/generateImage.ts)\<close>

record generate_body =
  body_structured_prompt :: "json option"
  body_prompt :: "json option"
  body_seed :: "json option"
  body_use_style_dna_parser :: "json option"
  body_sync :: "json option"

text \<open>
  The values of \<^verbatim>\<open>finalPrompt\<close>, \<^verbatim>\<open>finalStructuredPrompt\<close> and \<^verbatim>\<open>styleDNA\<close> after the
  block that applies the Style DNA parser.
\<close>

definition final_prompts ::
  "runtime \<Rightarrow> generate_body \<Rightarrow> json option \<times> json option \<times> StyleDNA option" where
  "final_prompts rt body =
     (case body_structured_prompt body of
        None \<Rightarrow> (body_prompt body, body_structured_prompt body, None)
      | Some sp \<Rightarrow>
          if truthy_opt (body_use_style_dna_parser body) \<and> truthy sp then
            (case parseStructuredPrompt rt sp of
               Inr styleDNA \<Rightarrow>
                 if keys_length styleDNA > 1
                 then (Some (JStr (createStyleTransferPrompt rt
                                     (or_else (body_prompt body) (JStr [])) styleDNA)),
                       None, Some styleDNA)
                 else (body_prompt body, None, Some styleDNA)
             | Inl parseError \<Rightarrow> (body_prompt body, None, None))
          else (body_prompt body, body_structured_prompt body, None))"

definition request_of :: "json option \<Rightarrow> json option \<Rightarrow> json option \<Rightarrow> ImageGenerateRequest" where
  "request_of finalPrompt finalStructuredPrompt seedValue =
     \<lparr> req_structured_prompt =
         (if truthy_opt finalStructuredPrompt then finalStructuredPrompt else None),
       req_prompt = finalPrompt,
       req_seed = seedValue,
       req_sync = Some (JBool True) \<rparr>"

definition generate_error_reply :: "runtime \<Rightarrow> js_error \<Rightarrow> 'a reply" where
  "generate_error_reply rt error =
     (let statusCode = status_of_error error;
          errorMessage = message_or_default error;
          errorDetails = details_of_error error;
          formattedError =
            (if is_object (Some errorDetails) then JSON_stringify_pretty rt errorDetails
             else js_String errorDetails);
          detailedMessage =
            (if statusCode = 422
             then ''Bria validation error: ''
                  @ (if formattedError = [] then ''Invalid request format'' else formattedError)
             else errorMessage @ (if formattedError = [] then [] else '': '' @ formattedError))
      in ErrorReply statusCode detailedMessage (Some errorDetails))"

definition generateImage_post ::
  "runtime \<Rightarrow> env \<Rightarrow> generate_body \<Rightarrow> world \<Rightarrow>
   (ImageGenerateResponse \<times> StyleDNA option) reply \<times> world" where
  "generateImage_post rt e body w =
     (if \<not> truthy_opt (body_structured_prompt body) \<and> \<not> truthy_opt (body_prompt body)
      then (ErrorReply 400 ''Either structured_prompt or prompt is required'' None, w)
      else if truthy_opt (body_structured_prompt body) \<and> \<not> is_string (body_structured_prompt body)
      then (ErrorReply 400 ''structured_prompt must be a string'' None, w)
      else
        (case final_prompts rt body of
           (finalPrompt, finalStructuredPrompt, styleDNA) \<Rightarrow>
             (case getBriaClient e of
                Inl error \<Rightarrow> (generate_error_reply rt error, w)
              | Inr client \<Rightarrow>
                  (case generateImage rt
                          (request_of finalPrompt finalStructuredPrompt (body_seed body)) w of
                     (Inl error, w') \<Rightarrow> (generate_error_reply rt error, w')
                   | (Inr result, w') \<Rightarrow> (JsonReply (result, styleDNA), w')))))"

subsection \<open>POST /api/style-extract (backend/src/api/styleExtract.ts)\<close>

record upload =
  originalname :: string
  mimetype :: string
  buffer :: buffer

record extract_request =
  files :: "upload list"
  profile_name :: "string option"

text \<open>The \<^verbatim>\<open>fileFilter\<close> callback of the upload configuration.\<close>

definition allowedTypes :: "string list" where
  "allowedTypes = [''image/jpeg'', ''image/jpg'', ''image/png'', ''image/webp'',
                   ''image/x-png'', ''image/pjpeg'']"

definition allowedExtensions :: "string list" where
  "allowedExtensions = [''jpg'', ''jpeg'', ''png'', ''webp'']"

definition fileFilter :: "upload \<Rightarrow> js_error option" where
  "fileFilter file =
     (let fileExt = last (split (CHR ''.'') (toLowerCase (originalname file))) in
      if mimetype file \<in> set allowedTypes \<or> (fileExt \<noteq> [] \<and> fileExt \<in> set allowedExtensions)
      then None
      else Some (Error (''Invalid file type: ''
                        @ (if mimetype file = [] then ''unknown'' else mimetype file)
                        @ ''. Only JPEG, PNG, and WebP are allowed.'')))"

text \<open>
  The upload middleware \<^verbatim>\<open>upload.array('images', 5)\<close> of the multer library, with the
  limits \<^verbatim>\<open>{ fileSize, files: 20 }\<close> of the source. The library is not part of the
  repository; this is its documented behaviour: the parts of the request are taken
  in order, a part beyond the limit \<^verbatim>\<open>files\<close> fails with \<^verbatim>\<open>LIMIT_FILE_COUNT\<close>, a part of
  the field beyond its \<^verbatim>\<open>maxCount\<close> fails with \<^verbatim>\<open>LIMIT_UNEXPECTED_FILE\<close>, then the
  file filter is asked, and a file longer than \<^verbatim>\<open>fileSize\<close> fails with
  \<^verbatim>\<open>LIMIT_FILE_SIZE\<close>. The error is handed to the next error handler, which is
  \<^verbatim>\<open>handleMulterError\<close>.
\<close>

datatype upload_error =
    MulterError string string
  | FilterError js_error

fun upload_scan :: "nat \<Rightarrow> nat \<Rightarrow> nat \<Rightarrow> nat \<Rightarrow> upload list \<Rightarrow> upload_error option" where
  "upload_scan maxCount filesLimit fileSize index [] = None"
| "upload_scan maxCount filesLimit fileSize index (file # rest) =
     (if index \<ge> filesLimit then Some (MulterError ''LIMIT_FILE_COUNT'' ''Too many files'')
      else if index \<ge> maxCount then Some (MulterError ''LIMIT_UNEXPECTED_FILE'' ''Unexpected field'')
      else (case fileFilter file of
              Some error \<Rightarrow> Some (FilterError error)
            | None \<Rightarrow>
                if length (buffer file) > fileSize
                then Some (MulterError ''LIMIT_FILE_SIZE'' ''File too large'')
                else upload_scan maxCount filesLimit fileSize (index + 1) rest))"

definition upload_array :: "env \<Rightarrow> upload list \<Rightarrow> upload_error option" where
  "upload_array e fs = upload_scan 5 20 (MAX_FILE_SIZE e) 0 fs"

definition handleMulterError :: "upload_error \<Rightarrow> 'a reply" where
  "handleMulterError err =
     (case err of
        MulterError code m \<Rightarrow>
          if code = ''LIMIT_FILE_SIZE''
          then ErrorReply 400 ''File size too large. Maximum 10MB per file.'' None
          else if code = ''LIMIT_FILE_COUNT''
          then ErrorReply 400 ''Too many files. Maximum 5 files allowed.'' None
          else ErrorReply 400 (if m = [] then ''File upload error'' else m) None
      | FilterError error \<Rightarrow>
          ErrorReply 400 (if message_of error = [] then ''File upload error'' else message_of error)
            None)"

text \<open>The loop that validates the file buffers; files are counted from 1 in the messages.\<close>

fun validate_buffers :: "nat \<Rightarrow> upload list \<Rightarrow> string option" where
  "validate_buffers i [] = None"
| "validate_buffers i (file # rest) =
     (if buffer file = []
      then Some (''File '' @ show_nat (i + 1) @ '' ('' @ originalname file
                 @ '') has no data or is corrupted'')
      else if length (buffer file) > 10 * 1024 * 1024
      then Some (''File '' @ show_nat (i + 1) @ '' ('' @ originalname file
                 @ '') exceeds 10MB limit'')
      else validate_buffers (i + 1) rest)"

record image_error =
  error_imageIndex :: nat
  error :: string

record StyleProfile =
  name :: string
  createdAt :: string
  images :: "StyleExtractResponse list"
  processedImages :: nat
  errors :: "image_error list option"

text \<open>
  The inner \<^verbatim>\<open>try\<close> of the loop body only logs what it decodes; its \<^verbatim>\<open>catch\<close> block
  calls \<^verbatim>\<open>result.structured_prompt.substring\<close>, which throws a TypeError when the
  value is not a string.
\<close>

definition log_structure :: "runtime \<Rightarrow> json \<Rightarrow> js_error + unit" where
  "log_structure rt sp =
     (case bind_result (parse_json rt sp)
             (\<lambda>parsed. if parsed = JNull
                        then Inl (TypeError ''Cannot convert undefined or null to object'')
                        else Inr ()) of
        Inr u \<Rightarrow> Inr ()
      | Inl e \<Rightarrow>
          if is_string (Some sp) then Inr ()
          else Inl (TypeError ''result.structured_prompt.substring is not a function''))"

text \<open>
  The loop over the image buffers, with its two accumulators: each image is sent on
  its own; a throw anywhere in the body is caught and recorded for that image.
\<close>

fun process_images ::
  "runtime \<Rightarrow> nat \<Rightarrow> buffer list \<Rightarrow> StyleExtractResponse list \<Rightarrow> image_error list \<Rightarrow> world \<Rightarrow>
   (StyleExtractResponse list \<times> image_error list) \<times> world" where
  "process_images rt i [] structuredPrompts errs w = ((structuredPrompts, errs), w)"
| "process_images rt i (b # rest) structuredPrompts errs w =
     (case extractStyle rt [b] w of
        (Inr result, w') \<Rightarrow>
          (case log_structure rt (structured_prompt result) of
             Inr u \<Rightarrow>
               process_images rt (i + 1) rest
                 (structuredPrompts @ [result\<lparr> imageIndex := Some i \<rparr>]) errs w'
           | Inl err \<Rightarrow>
               process_images rt (i + 1) rest structuredPrompts
                 (errs @ [\<lparr> error_imageIndex = i, error = message_of err \<rparr>]) w')
      | (Inl err, w') \<Rightarrow>
          process_images rt (i + 1) rest structuredPrompts
            (errs @ [\<lparr> error_imageIndex = i, error = message_of err \<rparr>]) w')"

definition profile_name_of ::
  "runtime \<Rightarrow> env \<Rightarrow> string option \<Rightarrow> StyleExtractResponse list \<Rightarrow> string" where
  "profile_name_of rt e custom structuredPrompts =
     (if (case custom of None \<Rightarrow> False | Some n \<Rightarrow> n \<noteq> [] \<and> trim n \<noteq> [])
      then (case custom of None \<Rightarrow> [] | Some n \<Rightarrow> trim n)
      else if length structuredPrompts > 0
      then generateProfileName rt structuredPrompts default_maxLength
      else ''Style Profile - '' @ now e)"

definition styleExtract_post ::
  "runtime \<Rightarrow> env \<Rightarrow> extract_request \<Rightarrow> world \<Rightarrow> StyleProfile reply \<times> world" where
  "styleExtract_post rt e request w =
     (case upload_array e (files request) of
        Some err \<Rightarrow> (handleMulterError err, w)
      | None \<Rightarrow>
          if files request = [] then (ErrorReply 400 ''No images provided'' None, w)
          else if length (files request) < 1
          then (ErrorReply 400 ''At least 1 image is required'' None, w)
          else if length (files request) > 20
          then (ErrorReply 400 (''Maximum 20 images allowed, received ''
                                @ show_nat (length (files request))) None, w)
          else
            (case validate_buffers 0 (files request) of
               Some m \<Rightarrow> (ErrorReply 400 m None, w)
             | None \<Rightarrow>
                 (case getBriaClient e of
                    Inl err \<Rightarrow>
                      (ErrorReply (status_of_error err) (message_or_default err)
                         (Some (details_of_error err)), w)
                  | Inr client \<Rightarrow>
                      (case process_images rt 0 (map buffer (files request)) [] [] w of
                         ((structuredPrompts, errs), w') \<Rightarrow>
                           (JsonReply
                              \<lparr> name = profile_name_of rt e (profile_name request) structuredPrompts,
                                createdAt = now e,
                                images = structuredPrompts,
                                processedImages = length (files request),
                                errors = (if length errs > 0 then Some errs else None) \<rparr>,
                            w')))))"

section \<open>Observers for the properties\<close>

text \<open>
  A test double for the retrier: an operation whose \<open>k\<close>-th
  invocation (from 0) has the outcome \<open>outs k\<close>, and which counts how often it
  was invoked; the timer records the delays it was asked for.
\<close>

record probe =
  calls :: nat
  delays :: "int list"

definition scripted :: "(nat \<Rightarrow> js_error + 'a) \<Rightarrow> probe \<Rightarrow> (js_error + 'a) \<times> probe" where
  "scripted outs p = (outs (calls p), p\<lparr>calls := Suc (calls p)\<rparr>)"

definition record_sleep :: "int \<Rightarrow> probe \<Rightarrow> probe" where
  "record_sleep d p = p\<lparr>delays := delays p @ [d]\<rparr>"

definition fresh :: probe where
  "fresh = \<lparr> calls = 0, delays = [] \<rparr>"

text \<open>
  \<open>polled url w\<close> is the world after one status request. \<open>counted\<close> wraps an
  operation so that its invocations are counted beside the state, as a spy would
  in a test; \<open>counted_sleep\<close> is the timer on that paired state.
\<close>

definition polled :: "string \<Rightarrow> world \<Rightarrow> world" where
  "polled url w = w\<lparr> served := Suc (served w), trace := trace w @ [Get url] \<rparr>"

definition counted :: "('s \<Rightarrow> 'r \<times> 's) \<Rightarrow> nat \<times> 's \<Rightarrow> 'r \<times> (nat \<times> 's)" where
  "counted fn c = (case fn (snd c) of (r, s') \<Rightarrow> (r, (Suc (fst c), s')))"

definition counted_sleep :: "(int \<Rightarrow> 's \<Rightarrow> 's) \<Rightarrow> int \<Rightarrow> nat \<times> 's \<Rightarrow> nat \<times> 's" where
  "counted_sleep sl d c = (fst c, sl d (snd c))"

text \<open>
  \<open>new_events w w'\<close> is what a run from \<open>w\<close> to \<open>w'\<close> added to the trace, \<open>posted\<close>
  the payloads of its POST requests, and \<open>only_posts ok w0 s\<close> says that the trace of
  \<open>s\<close> extends that of \<open>w0\<close> by events whose POST payloads all satisfy \<open>ok\<close>.
  \<open>sync_is_true\<close> and \<open>style_transfer_payload\<close> are the two properties of outbound
  generation requests stated below; \<open>styled\<close> says whether the Style DNA parsed from
  the structured prompt has a key besides \<^verbatim>\<open>original\<close>.
\<close>

fun posted :: "event list \<Rightarrow> json list" where
  "posted [] = []"
| "posted (Post url payload # es) = payload # posted es"
| "posted (e # es) = posted es"

definition new_events :: "world \<Rightarrow> world \<Rightarrow> event list" where
  "new_events w w' = drop (length (trace w)) (trace w')"

definition only_posts :: "(json \<Rightarrow> bool) \<Rightarrow> world \<Rightarrow> world \<Rightarrow> bool" where
  "only_posts ok w0 s = (\<exists>es. trace s = trace w0 @ es \<and> list_all ok (posted es))"

text \<open>\<open>grows w s\<close>: the trace of \<open>s\<close> extends that of \<open>w\<close>.\<close>

definition grows :: "world \<Rightarrow> world \<Rightarrow> bool" where
  "grows w s = (\<exists>es. trace s = trace w @ es)"

definition sync_is_true :: "json \<Rightarrow> bool" where
  "sync_is_true payload = (opt_chain (Some payload) ''sync'' = Some (JBool True))"





text \<open>
  \<open>client_worlds rt bufs w\<close> lists the worlds in which the client is called when the
  images \<open>bufs\<close> are submitted one after the other from \<open>w\<close>, followed by the world
  after the last call. \<open>recorded rt k outcome structuredPrompts errs\<close> says that the
  outcome of the client for image \<open>k\<close> is what the two lists hold for it: the result
  with \<^verbatim>\<open>imageIndex\<close> \<open>k\<close>, or an error with the message of what was thrown.
  \<open>recorded_errors\<close> is the list \<^verbatim>\<open>errors\<close> of a profile, empty when it is absent.
\<close>

fun client_worlds :: "runtime \<Rightarrow> buffer list \<Rightarrow> world \<Rightarrow> world list" where
  "client_worlds rt [] w = [w]"
| "client_worlds rt (b # rest) w = w # client_worlds rt rest (snd (extractStyle rt [b] w))"



section \<open>Sample inputs\<close>

text \<open>Two scripted operations: three failures and then the value 7; failures only.\<close>

definition fails_then_succeeds :: "nat \<Rightarrow> js_error + nat" where
  "fails_then_succeeds k = (if k < 3 then Inl (Error ''boom'') else Inr 7)"

definition always_fails :: "nat \<Rightarrow> js_error + nat" where
  "always_fails k = Inl (Error (if k = 3 then ''fourth failure'' else ''earlier failure''))"

text \<open>
  A runtime for the examples: the graph of \<^verbatim>\<open>JSON.parse\<close> restricted to the three
  documents the examples decode (every other text used below is not JSON), and
  stand-ins for the serialisers, whose output no example depends on.
\<close>

definition rt_sample :: runtime where
  "rt_sample =
     \<lparr> JSON_parse = [''{}'' \<mapsto> JObj [],
                     ''{\"mood\":\"calm\"}'' \<mapsto> JObj [(''mood'', JStr ''calm'')],
                     ''{\"lighting\":\"warm\",\"mood\":\"calm serene\"}'' \<mapsto>
                        JObj [(''lighting'', JStr ''warm''), (''mood'', JStr ''calm serene'')]],
       JSON_stringify = (\<lambda>v. ''{}''),
       JSON_stringify_pretty = (\<lambda>v. ''{}''),
       toBase64 = (\<lambda>b. ''QUJD'') \<rparr>"

text \<open>
  A remote service at its first call, and two services: one that answers every
  status request with the status \<^verbatim>\<open>ERROR\<close> and a message, one that answers every
  request with the lower-case status \<^verbatim>\<open>completed\<close> and an image.
\<close>

definition world_of :: "(nat \<Rightarrow> js_error + response) \<Rightarrow> world" where
  "world_of script = \<lparr> remote = script, served = 0, trace = [] \<rparr>"

definition error_service :: "nat \<Rightarrow> js_error + response" where
  "error_service k =
     Inr \<lparr> status = 200,
           data = JObj [(''status'', JStr ''ERROR''),
                        (''error'', JObj [(''message'', JStr ''bad image'')])] \<rparr>"

definition lower_case_service :: "nat \<Rightarrow> js_error + response" where
  "lower_case_service k =
     Inr \<lparr> status = 200,
           data = JObj [(''status'', JStr ''completed''),
                        (''image_url'', JStr ''https://cdn/img.png''),
                        (''seed'', JNum 42)] \<rparr>"

text \<open>A service that reports the status \<^verbatim>\<open>IN_PROGRESS\<close> on every poll.\<close>

definition pending_service :: "nat \<Rightarrow> js_error + response" where
  "pending_service k = Inr \<lparr> status = 200, data = JObj [(''status'', JStr ''IN_PROGRESS'')] \<rparr>"

text \<open>
  An environment with an API key, and the generation request of the scenario: the
  Style DNA parser switched on, the prompt \<^verbatim>\<open>a red bicycle\<close>, a structured prompt
  \<open>sp\<close>, and an inbound \<^verbatim>\<open>sync: false\<close>.
\<close>

definition env_sample :: env where
  "env_sample = \<lparr> BRIA_API_KEY = Some ''key'', MAX_FILE_SIZE = 10485760,
                   now = ''2025-01-01T00:00:00.000Z'' \<rparr>"

definition bicycle_body :: "string \<Rightarrow> generate_body" where
  "bicycle_body sp =
     \<lparr> body_structured_prompt = Some (JStr sp),
       body_prompt = Some (JStr ''a red bicycle''),
       body_seed = Some (JNum 7),
       body_use_style_dna_parser = Some (JBool True),
       body_sync = Some (JBool False) \<rparr>"

text \<open>
  The scenario of three uploads whose second image fails at the remote service: the
  service answers the first call with a result, the next four calls (the attempt
  on the second image and its three retries) with HTTP 500, and every later call
  with a result. The uploads are valid PNG files.
\<close>

definition server_busy :: js_error where
  "server_busy = AxiosError (Some ''ERR_BAD_RESPONSE'') ''Request failed with status code 500''
                  (Some (500, JObj [(''message'', JStr ''overloaded'')]))"

definition extracted :: response where
  "extracted = \<lparr> status = 200,
                  data = JObj [(''result'', JObj [(''structured_prompt'', JStr ''{}''),
                                                  (''seed'', JNum 11)])] \<rparr>"

definition second_image_fails :: "nat \<Rightarrow> js_error + response" where
  "second_image_fails k = (if 1 \<le> k \<and> k \<le> 4 then Inl server_busy else Inr extracted)"

definition png :: upload where
  "png = \<lparr> originalname = ''photo.png'', mimetype = ''image/png'', buffer = ''PNG'' \<rparr>"


definition six_uploads :: extract_request where
  "six_uploads = \<lparr> files = [png, png, png, png, png, png], profile_name = None \<rparr>"

text \<open>
  Two services whose first answer carries a status of one vocabulary and whose later
  answers carry the matching status of the other.
\<close>

definition lower_then_upper :: "nat \<Rightarrow> js_error + response" where
  "lower_then_upper k =
     Inr \<lparr> status = 200,
           data = JObj [(''status'', JStr (if k = 0 then ''completed'' else ''COMPLETED'')),
                        (''structured_prompt'', JStr ''{}''),
                        (''seed'', JNum 11)] \<rparr>"

definition upper_then_lower :: "nat \<Rightarrow> js_error + response" where
  "upper_then_lower k =
     Inr \<lparr> status = 200,
           data = JObj [(''status'', JStr (if k = 0 then ''COMPLETED'' else ''completed'')),
                        (''images'', JArr [JStr ''https://cdn/img.png''])] \<rparr>"


section \<open>Properties of the retrier\<close>

lemma retry_loop_scripted:
  "attempt \<le> maxRetries opts \<Longrightarrow>
   n = nat (maxRetries opts - attempt) \<Longrightarrow>
   \<forall>k < n. isl (outs (calls p + k)) \<Longrightarrow>
   fst (retry_loop (scripted outs) record_sleep opts attempt delay lastError p)
     = outs (calls p + n) \<and>
   calls (snd (retry_loop (scripted outs) record_sleep opts attempt delay lastError p))
     = calls p + n + 1"
proof (induction n arbitrary: attempt delay lastError p)
  case 0
  then have eq: "attempt = maxRetries opts" by simp
  show ?case
    by (subst retry_loop.simps, subst retry_loop.simps)
       (simp add: eq scripted_def split: sum.splits)
next
  case (Suc n)
  then have lt: "attempt < maxRetries opts" by simp
  from Suc.prems(3) have "isl (outs (calls p + 0))" by blast
  then obtain err where err: "outs (calls p) = Inl err" by (auto simp: isl_def)
  let ?p' = "record_sleep delay (p\<lparr>calls := Suc (calls p)\<rparr>)"
  have step: "retry_loop (scripted outs) record_sleep opts attempt delay lastError p
      = retry_loop (scripted outs) record_sleep opts (attempt + 1)
          (min (delay * backoffMultiplier opts) (maxDelay opts)) (Some err) ?p'"
    using lt by (subst retry_loop.simps) (simp add: scripted_def err)
  have c: "calls ?p' = Suc (calls p)" by (simp add: record_sleep_def)
  have "\<forall>k < n. isl (outs (calls ?p' + k))"
  proof (intro allI impI)
    fix k assume "k < n"
    then have "Suc k < Suc n" by simp
    with Suc.prems(3) have "isl (outs (calls p + Suc k))" by blast
    then show "isl (outs (calls ?p' + k))" by (simp add: c)
  qed
  moreover have "attempt + 1 \<le> maxRetries opts" using lt by simp
  moreover have "n = nat (maxRetries opts - (attempt + 1))" using Suc.prems(2) by linarith
  ultimately show ?case
    using Suc.IH [of "attempt + 1" ?p'] by (simp add: step c)
qed

text \<open>
  C6. An operation that fails exactly \<open>maxRetries\<close> times and then succeeds: the
  retrier returns the success value and has invoked the operation exactly
  \<open>maxRetries + 1\<close> times. An operation that fails \<open>maxRetries + 1\<close> times: the
  retrier raises the last of these failures. \<open>maxRetries\<close> is a count, so it is
  not negative.
\<close>

theorem retryWithBackoff_attempts:
  assumes "0 \<le> maxRetries opts"
  shows "((\<forall>k < nat (maxRetries opts). isl (outs k)) \<and> outs (nat (maxRetries opts)) = Inr v \<longrightarrow>
            fst (retryWithBackoff (scripted outs) record_sleep opts fresh) = Inr v \<and>
            calls (snd (retryWithBackoff (scripted outs) record_sleep opts fresh))
              = nat (maxRetries opts) + 1)
       \<and> ((\<forall>k < nat (maxRetries opts). isl (outs k)) \<and> outs (nat (maxRetries opts)) = Inl e \<longrightarrow>
            fst (retryWithBackoff (scripted outs) record_sleep opts fresh) = Inl e \<and>
            calls (snd (retryWithBackoff (scripted outs) record_sleep opts fresh))
              = nat (maxRetries opts) + 1)"
proof -
  have base: "calls fresh = 0" by (simp add: fresh_def)
  have gen: "\<forall>k < nat (maxRetries opts). isl (outs k) \<Longrightarrow>
      fst (retryWithBackoff (scripted outs) record_sleep opts fresh) = outs (nat (maxRetries opts)) \<and>
      calls (snd (retryWithBackoff (scripted outs) record_sleep opts fresh))
        = nat (maxRetries opts) + 1"
    using retry_loop_scripted [of 0 opts "nat (maxRetries opts)" outs fresh "initialDelay opts" None]
      assms
    by (simp add: retryWithBackoff_def base)
  show ?thesis using gen by simp
qed

theorem retryWithBackoff_attempts_witness:
  "0 \<le> maxRetries defaultOptions
   \<and> isl (fails_then_succeeds 0) \<and> isl (fails_then_succeeds 1) \<and> isl (fails_then_succeeds 2)
   \<and> fails_then_succeeds 3 = Inr 7
   \<and> fst (retryWithBackoff (scripted fails_then_succeeds) record_sleep defaultOptions fresh) = Inr 7
   \<and> calls (snd (retryWithBackoff (scripted fails_then_succeeds) record_sleep defaultOptions fresh)) = 4
   \<and> isl (always_fails 0) \<and> isl (always_fails 1) \<and> isl (always_fails 2)
   \<and> always_fails 3 = Inl (Error ''fourth failure'')
   \<and> fst (retryWithBackoff (scripted always_fails) record_sleep defaultOptions fresh)
       = Inl (Error ''fourth failure'')
   \<and> calls (snd (retryWithBackoff (scripted always_fails) record_sleep defaultOptions fresh)) = 4"
  using retryWithBackoff_attempts [of defaultOptions fails_then_succeeds 7 "Error ''x''"]
        retryWithBackoff_attempts [of defaultOptions always_fails 0 "Error ''fourth failure''"]
  by (simp add: defaultOptions_def fails_then_succeeds_def always_fails_def)

section \<open>Properties of the attribute extractor and the DNA parser\<close>

text \<open>
  The \<^verbatim>\<open>catch\<close> blocks are reached by more than decoding failures: a document that
  decodes to \<^verbatim>\<open>null\<close>, or a member that is not a string where a string method is
  called, throws inside the \<^verbatim>\<open>try\<close> block.
\<close>

lemma attributes_of_null: "isl (attributes_of rt JNull)"
  by (simp add: attributes_of_def category_def bind_result_def)

lemma attributes_of_number_mood: "isl (attributes_of rt (JObj [(''mood'', JNum 5)]))"
  by (simp add: attributes_of_def category_def bind_result_def)

text \<open>
  C8. For every input text, the empty text and text that is not JSON included,
  \<^verbatim>\<open>extractStyleAttributes\<close> and \<^verbatim>\<open>parseStructuredPrompt\<close> return a value and never
  throw; when the text does not decode, \<^verbatim>\<open>extractStyleAttributes\<close> returns the object
  with no category populated and \<^verbatim>\<open>parseStructuredPrompt\<close> returns the object whose
  only field, \<^verbatim>\<open>original\<close>, holds the raw text.
\<close>

theorem decode_failures_are_caught:
  "(\<exists>a. extractStyleAttributes rt (JStr text) = Inr a)
   \<and> (\<exists>d. parseStructuredPrompt rt (JStr text) = Inr d)
   \<and> (JSON_parse rt text = None \<longrightarrow>
        extractStyleAttributes rt (JStr text) = Inr no_attributes
        \<and> parseStructuredPrompt rt (JStr text) = Inr (only_original (JStr text)))"
  by (simp add: extractStyleAttributes_def parseStructuredPrompt_def parse_json_def
        bind_result_def split: sum.splits)

theorem decode_failures_are_caught_witness:
  "JSON_parse rt_sample ''not json'' = None
   \<and> extractStyleAttributes rt_sample (JStr ''not json'') = Inr no_attributes
   \<and> parseStructuredPrompt rt_sample (JStr ''not json'') = Inr (only_original (JStr ''not json''))
   \<and> JSON_parse rt_sample [] = None
   \<and> extractStyleAttributes rt_sample (JStr []) = Inr no_attributes
   \<and> dna_original (projr (parseStructuredPrompt rt_sample (JStr []))) = Some (JStr [])"
  using decode_failures_are_caught [of rt_sample "''not json''"]
        decode_failures_are_caught [of rt_sample "[]"]
  by (simp add: rt_sample_def only_original_def)

section \<open>Properties of the profile namer\<close>

lemma split_not_Nil: "split sep s \<noteq> []"
  by (induction s) (auto split: list.splits)

lemma split_no_sep: "w \<in> set (split sep s) \<Longrightarrow> sep \<notin> set w"
proof (induction s arbitrary: w)
  case Nil
  then show ?case by simp
next
  case (Cons c cs)
  show ?case
  proof (cases "c = sep")
    case True
    with Cons show ?thesis by auto
  next
    case False
    obtain v vs where vs: "split sep cs = v # vs"
      using split_not_Nil [of sep cs] by (cases "split sep cs") auto
    with Cons False show ?thesis by auto
  qed
qed

lemma split_prefix_word:
  "sep \<notin> set u \<Longrightarrow> split sep (u @ sep # t) = u # split sep t"
  by (induction u) auto

lemma split_word: "sep \<notin> set w \<Longrightarrow> split sep w = [w]"
  by (induction w) auto

lemma split_join:
  "ws \<noteq> [] \<Longrightarrow> \<forall>w \<in> set ws. sep \<notin> set w \<Longrightarrow> split sep (join [sep] ws) = ws"
proof (induction ws)
  case Nil
  then show ?case by simp
next
  case (Cons w ws)
  show ?case
  proof (cases ws)
    case Nil
    with Cons.prems show ?thesis by (simp add: split_word)
  next
    case (Cons v vs)
    with Cons.IH Cons.prems have "split sep (join [sep] (v # vs)) = v # vs" by simp
    with Cons Cons.prems show ?thesis by (simp add: split_prefix_word del: split.simps)
  qed
qed

lemma trim_words_props:
  "ws \<noteq> [] \<Longrightarrow>
   trim_words m ws \<noteq> [] \<and> set (trim_words m ws) \<subseteq> set ws
   \<and> (length (trim_words m ws) \<le> 2 \<or> int (length (join '' '' (trim_words m ws))) \<le> m)"
proof (induction m ws rule: trim_words.induct)
  case (1 maxLength words)
  show ?case
  proof (cases "length words > 2 \<and> int (length (join '' '' words)) > maxLength")
    case True
    then have ne: "butlast words \<noteq> []" by (cases words rule: rev_cases) auto
    have sub: "set (butlast words) \<subseteq> set words" by (meson in_set_butlastD subsetI)
    from 1(1) [OF True ne] sub True show ?thesis
      by (subst (1 2 3 4) trim_words.simps) auto
  next
    case False
    with 1(2) show ?thesis
      by (subst (1 2 3 4) trim_words.simps) auto
  qed
qed

lemma name_without_keywords: "generateProfileName rt_sample [\<lparr>structured_prompt = JStr ''{}''\<rparr>] 10 = ''Custom Style Profile''"
  by code_simp

lemma name_of_one_keyword: "generateProfileName rt_sample [\<lparr>structured_prompt = JStr ''{\"mood\":\"calm\"}''\<rparr>] 2 = ''Calm''"
  by code_simp

lemma join_split: "join [sep] (split sep s) = s"
proof (induction s)
  case Nil
  then show ?case by simp
next
  case (Cons c cs)
  obtain w ws where ws: "split sep cs = w # ws"
    using split_not_Nil [of sep cs] by (cases "split sep cs") auto
  show ?case
  proof (cases "c = sep")
    case True
    with Cons ws show ?thesis by simp
  next
    case False
    with Cons ws show ?thesis by (cases ws) auto
  qed
qed

lemma trim_words_floor:
  "ws \<noteq> [] \<Longrightarrow>
   int (length (join '' '' (trim_words m ws))) \<le> m
   \<or> length (trim_words m ws) = 2
   \<or> (trim_words m ws = ws \<and> length ws = 1)"
proof (induction m ws rule: trim_words.induct)
  case (1 maxLength words)
  show ?case
  proof (cases "length words > 2 \<and> int (length (join '' '' words)) > maxLength")
    case True
    then have ne: "butlast words \<noteq> []" by (cases words rule: rev_cases) auto
    have eq: "trim_words maxLength words = trim_words maxLength (butlast words)"
      using True by (subst trim_words.simps) simp
    from True have "3 \<le> length words" by simp
    then have "length (butlast words) \<noteq> 1" by simp
    with 1(1) [OF True ne] show ?thesis unfolding eq by auto
  next
    case False
    then have eq: "trim_words maxLength words = words"
      by (subst trim_words.simps) auto
    from False 1(2) have "int (length (join '' '' words)) \<le> maxLength \<or> length words = 2
        \<or> length words = 1"
      by (cases words) (auto simp: not_less le_Suc_eq)
    then show ?thesis unfolding eq by auto
  qed
qed

lemma name_trimmed_to_two_words:
  "generateProfileName rt_sample
     [\<lparr>structured_prompt = JStr ''{\"lighting\":\"warm\",\"mood\":\"calm serene\"}''\<rparr>] 5
   = ''Warm Serene''"
  by code_simp

lemma name_trimmed_to_fit:
  "generateProfileName rt_sample
     [\<lparr>structured_prompt = JStr ''{\"lighting\":\"warm\",\"mood\":\"calm serene\"}''\<rparr>] 12
   = ''Warm Serene''"
  by code_simp

text \<open>
  C7, as the code has it. The name returned by \<^verbatim>\<open>generateProfileName\<close> is at most
  \<open>maxLength\<close> characters long, or it has exactly two words (the floor at which the
  loop that drops trailing words stops), or it is the literal
  \<^verbatim>\<open>'Custom Style Profile'\<close>, which is returned untrimmed when no keyword was
  extracted, or it is a single word that is the whole untrimmed name built from the
  keywords (a name of one word is never shortened). Words are what \<^verbatim>\<open>split(' ')\<close>
  counts.
\<close>

theorem generateProfileName_length:
  "int (length (generateProfileName rt structuredPrompts maxLength)) \<le> maxLength
   \<or> length (split (CHR '' '') (generateProfileName rt structuredPrompts maxLength)) = 2
   \<or> generateProfileName rt structuredPrompts maxLength = ''Custom Style Profile''
   \<or> (length (split (CHR '' '') (generateProfileName rt structuredPrompts maxLength)) = 1
       \<and> (\<exists>attributes. aggregateAttributes rt structuredPrompts = Inr attributes
            \<and> generateProfileName rt structuredPrompts maxLength
                = capitalizeWords (join '' '' (getTopAttributes attributes 4))))"
proof (cases "structuredPrompts = []")
  case True
  then show ?thesis by (simp add: generateProfileName_def)
next
  case False
  show ?thesis
  proof (cases "aggregateAttributes rt structuredPrompts")
    case (Inl e)
    with False show ?thesis by (simp add: generateProfileName_def)
  next
    case (Inr attributes)
    let ?top = "getTopAttributes attributes 4"
    let ?n0 = "capitalizeWords (join '' '' ?top)"
    let ?ws = "trim_words maxLength (split (CHR '' '') ?n0)"
    show ?thesis
    proof (cases "?top = []")
      case True
      with False Inr show ?thesis by (simp add: generateProfileName_def)
    next
      case top: False
      show ?thesis
      proof (cases "int (length ?n0) > maxLength")
        case fits: False
        then have "generateProfileName rt structuredPrompts maxLength
            = (if ?n0 = [] then ''Style Profile'' else ?n0)"
          using False Inr top by (simp add: generateProfileName_def Let_def)
        moreover have "length (split (CHR '' '') ''Style Profile'') = 2" by simp
        ultimately show ?thesis using fits by (auto simp del: split.simps)
      next
        case long: True
        have p: "?ws \<noteq> [] \<and> set ?ws \<subseteq> set (split (CHR '' '') ?n0)"
          using trim_words_props [OF split_not_Nil] by blast
        then have "\<forall>w \<in> set ?ws. CHR '' '' \<notin> set w" using split_no_sep by blast
        with p have sj: "split (CHR '' '') (join '' '' ?ws) = ?ws" using split_join by blast
        have nm: "generateProfileName rt structuredPrompts maxLength
            = (if join '' '' ?ws = [] then ''Style Profile'' else join '' '' ?ws)"
          using False Inr top long by (simp add: generateProfileName_def Let_def)
        from trim_words_floor [OF split_not_Nil, of maxLength "CHR '' ''" ?n0]
        consider (a) "int (length (join '' '' ?ws)) \<le> maxLength" | (b) "length ?ws = 2"
          | (c) "?ws = split (CHR '' '') ?n0" "length (split (CHR '' '') ?n0) = 1"
          by blast
        then show ?thesis
        proof cases
          case a
          show ?thesis
          proof (cases "join '' '' ?ws = []")
            case True
            with nm show ?thesis by simp
          next
            case False
            with nm a show ?thesis by simp
          qed
        next
          case b
          show ?thesis
          proof (cases "join '' '' ?ws = []")
            case True
            with nm show ?thesis by simp
          next
            case False
            with nm sj b show ?thesis by simp
          qed
        next
          case c
          then have j: "join '' '' ?ws = ?n0" by (simp add: join_split)
          show ?thesis
          proof (cases "join '' '' ?ws = []")
            case True
            with nm show ?thesis by simp
          next
            case False
            with nm j sj c Inr show ?thesis by simp
          qed
        qed
      qed
    qed
  qed
qed

text \<open>
  The claim as stated fails for a prompt without keywords and \<open>maxLength = 10\<close>: the
  name is \<^verbatim>\<open>'Custom Style Profile'\<close>, 20 characters in three words.
\<close>

theorem generateProfileName_length_counterexample:
  "\<not> (int (length (generateProfileName rt_sample [\<lparr>structured_prompt = JStr ''{}''\<rparr>] 10)) \<le> 10
      \<or> length (split (CHR '' '')
                  (generateProfileName rt_sample [\<lparr>structured_prompt = JStr ''{}''\<rparr>] 10)) = 2)"
  by (simp add: name_without_keywords)

theorem generateProfileName_length_witness:
  "generateProfileName rt_sample
     [\<lparr>structured_prompt = JStr ''{\"lighting\":\"warm\",\"mood\":\"calm serene\"}''\<rparr>] 5
     = ''Warm Serene''
   \<and> length (split (CHR '' '') ''Warm Serene'') = 2
   \<and> generateProfileName rt_sample
       [\<lparr>structured_prompt = JStr ''{\"lighting\":\"warm\",\"mood\":\"calm serene\"}''\<rparr>] 12
     = ''Warm Serene''
   \<and> int (length ''Warm Serene'') \<le> 12
   \<and> generateProfileName rt_sample [\<lparr>structured_prompt = JStr ''{\"mood\":\"calm\"}''\<rparr>] 2
     = ''Calm''
   \<and> length (split (CHR '' '') ''Calm'') = 1"
  using generateProfileName_length
          [of rt_sample
              "[\<lparr>structured_prompt = JStr ''{\"lighting\":\"warm\",\"mood\":\"calm serene\"}''\<rparr>]" 5]
  by (simp add: name_trimmed_to_two_words name_trimmed_to_fit name_of_one_keyword)

section \<open>Properties of the polling loops\<close>

text \<open>
  The \<^verbatim>\<open>throw\<close> for the status \<^verbatim>\<open>ERROR\<close> stands inside the \<^verbatim>\<open>try\<close> block of the loop,
  so the \<^verbatim>\<open>catch\<close> block of the same loop receives it: whatever the service
  answers, the only error that leaves \<^verbatim>\<open>pollStyleExtractStatus\<close> is the timeout.
\<close>

lemma pollStyleExtractStatus_only_timeout:
  "fst (pollStyleExtractStatus_loop rt requestId statusUrl i w) = Inl e \<Longrightarrow>
   e = Error ''Polling timeout for style extraction''"
proof (induction rt requestId statusUrl i w rule: pollStyleExtractStatus_loop.induct)
  case (1 rt requestId statusUrl i w)
  show ?case
  proof (cases "i < 30")
    case False
    with 1(3) show ?thesis by (subst (asm) pollStyleExtractStatus_loop.simps) simp
  next
    case True
    obtain p w' where pw: "pollStyleExtractStatus_pass rt requestId statusUrl w = (p, w')"
      by (cases "pollStyleExtractStatus_pass rt requestId statusUrl w")
    show ?thesis
    proof (cases p)
      case (Return r)
      with 1(3) True pw show ?thesis by (subst (asm) pollStyleExtractStatus_loop.simps) simp
    next
      case (Throw err)
      show ?thesis
      proof (cases "i = 30 - 1")
        case last: True
        with 1(3) True pw Throw show ?thesis
          by (subst (asm) pollStyleExtractStatus_loop.simps) simp
      next
        case notlast: False
        with 1(3) True pw Throw
        have "fst (pollStyleExtractStatus_loop rt requestId statusUrl (i + 1) w') = Inl e"
          by (subst (asm) pollStyleExtractStatus_loop.simps) simp
        with 1(1) [OF True pw [symmetric] Throw notlast] show ?thesis by simp
      qed
    next
      case Next
      with 1(3) True pw
      have "fst (pollStyleExtractStatus_loop rt requestId statusUrl (i + 1) w') = Inl e"
        by (subst (asm) pollStyleExtractStatus_loop.simps) simp
      with 1(2) [OF True pw [symmetric] Next] show ?thesis by simp
    qed
  qed
qed

lemma error_pass:
  "remote w = error_service \<Longrightarrow>
   pollStyleExtractStatus_pass rt requestId statusUrl w =
     (Throw (Error ''bad image''),
      w\<lparr> served := Suc (served w), trace := trace w @ [Get (status_url_of requestId statusUrl)] \<rparr>)"
  by (simp add: pollStyleExtractStatus_pass_def http_def error_service_def is_text_def or_else_def)

lemma error_loop:
  "remote w = error_service \<Longrightarrow> n = 30 - i \<Longrightarrow> i \<le> 30 \<Longrightarrow>
   pollStyleExtractStatus_loop rt requestId statusUrl i w =
     (Inl (Error ''Polling timeout for style extraction''),
      w\<lparr> served := served w + n,
         trace := trace w @ replicate n (Get (status_url_of requestId statusUrl)) \<rparr>)"
proof (induction n arbitrary: i w)
  case 0
  then show ?case by (subst pollStyleExtractStatus_loop.simps) simp
next
  case (Suc n)
  let ?w' = "w\<lparr> served := Suc (served w),
                 trace := trace w @ [Get (status_url_of requestId statusUrl)] \<rparr>"
  have i: "i < 30" using Suc.prems by simp
  show ?case
  proof (cases "i = 29")
    case True
    then have "n = 0" using Suc.prems by simp
    with True Suc.prems(1) show ?thesis
      by (subst pollStyleExtractStatus_loop.simps) (simp add: error_pass)
  next
    case False
    have r: "remote ?w' = error_service" using Suc.prems by simp
    have "pollStyleExtractStatus_loop rt requestId statusUrl i w
        = pollStyleExtractStatus_loop rt requestId statusUrl (i + 1) ?w'"
      using i False Suc.prems(1) by (subst pollStyleExtractStatus_loop.simps) (simp add: error_pass)
    also have "\<dots> = (Inl (Error ''Polling timeout for style extraction''),
        ?w'\<lparr> served := served ?w' + n,
             trace := trace ?w' @ replicate n (Get (status_url_of requestId statusUrl)) \<rparr>)"
      using Suc.IH [OF r, of "i + 1"] Suc.prems by simp
    finally show ?thesis by (simp add: replicate_app_Cons_same)
  qed
qed

text \<open>
  The parts of the polling that hold: against a service that never reaches a final
  status, the loop polls 30 times, 2 seconds apart, and raises the timeout error.
\<close>

lemma pending_pass:
  "remote w = pending_service \<Longrightarrow>
   pollStyleExtractStatus_pass rt requestId statusUrl w =
     (Next,
      w\<lparr> served := Suc (served w),
         trace := trace w @ [Get (status_url_of requestId statusUrl), Sleep 2000] \<rparr>)"
  by (simp add: pollStyleExtractStatus_pass_def http_def pending_service_def is_text_def sleep_def)

lemma pending_loop:
  "remote w = pending_service \<Longrightarrow> n = 30 - i \<Longrightarrow> i \<le> 30 \<Longrightarrow>
   pollStyleExtractStatus_loop rt requestId statusUrl i w =
     (Inl (Error ''Polling timeout for style extraction''),
      w\<lparr> served := served w + n,
         trace := trace w
           @ concat (replicate n [Get (status_url_of requestId statusUrl), Sleep 2000]) \<rparr>)"
proof (induction n arbitrary: i w)
  case 0
  then show ?case by (subst pollStyleExtractStatus_loop.simps) simp
next
  case (Suc n)
  let ?w' = "w\<lparr> served := Suc (served w),
                 trace := trace w @ [Get (status_url_of requestId statusUrl), Sleep 2000] \<rparr>"
  have i: "i < 30" using Suc.prems by simp
  have r: "remote ?w' = pending_service" using Suc.prems by simp
  have "pollStyleExtractStatus_loop rt requestId statusUrl i w
      = pollStyleExtractStatus_loop rt requestId statusUrl (i + 1) ?w'"
    using i Suc.prems(1) by (subst pollStyleExtractStatus_loop.simps) (simp add: pending_pass)
  also have "\<dots> = (Inl (Error ''Polling timeout for style extraction''),
      ?w'\<lparr> served := served ?w' + n,
           trace := trace ?w'
             @ concat (replicate n [Get (status_url_of requestId statusUrl), Sleep 2000]) \<rparr>)"
  proof -
    have "n = 30 - (i + 1)" "i + 1 \<le> 30" using Suc.prems by simp_all
    from Suc.IH [OF r this] show ?thesis .
  qed
  finally show ?case by simp
qed

lemma pollStyleExtractStatus_pending_times_out:
  "remote w = pending_service \<Longrightarrow>
   pollStyleExtractStatus rt requestId statusUrl w =
     (Inl (Error ''Polling timeout for style extraction''),
      w\<lparr> served := served w + 30,
         trace := trace w
           @ concat (replicate 30 [Get (status_url_of requestId statusUrl), Sleep 2000]) \<rparr>)"
  using pending_loop [of w 30 0] by (simp add: pollStyleExtractStatus_def)

text \<open>
  C1, at a service that reports \<^verbatim>\<open>ERROR\<close> with the message \<^verbatim>\<open>bad image\<close> on every
  poll: \<^verbatim>\<open>pollStyleExtractStatus\<close> polls 30 times without waiting in between and then
  raises the timeout error; the message of the service is lost.
\<close>

theorem pollStyleExtractStatus_swallows_error:
  "pollStyleExtractStatus rt_sample (Some (JStr ''r1'')) (Some (JStr ''/status/r1''))
     (world_of error_service)
   = (Inl (Error ''Polling timeout for style extraction''),
      \<lparr> remote = error_service, served = 30, trace = replicate 30 (Get ''/status/r1'') \<rparr>)"
  using error_loop [of "world_of error_service" 30 0 rt_sample "Some (JStr ''r1'')" "Some (JStr ''/status/r1'')"]
  by (simp add: pollStyleExtractStatus_def world_of_def status_url_of_def or_else_def)

theorem pollStyleExtractStatus_swallows_error_witness:
  "fst (pollStyleExtractStatus rt_sample (Some (JStr ''r1'')) (Some (JStr ''/status/r1''))
          (world_of error_service))
   = Inl (Error ''Polling timeout for style extraction'')"
  using pollStyleExtractStatus_swallows_error by simp

lemma http_Get: "http (Get url) w = (remote w (served w), polled url w)"
  by (simp add: http_def polled_def)

text \<open>
  The polling loops only add to the trace, and each attempt starts with its status
  request.
\<close>

lemma grows_refl: "grows w w"
  by (simp add: grows_def)

lemma grows_sleep: "grows w0 s \<Longrightarrow> grows w0 (sleep d s)"
  by (auto simp: grows_def sleep_def)

lemma grows_polled: "grows w0 s \<Longrightarrow> grows w0 (polled url s)"
  by (auto simp: grows_def polled_def)

lemma grows_style_pass:
  "grows w0 s \<Longrightarrow> grows w0 (snd (pollStyleExtractStatus_pass rt requestId statusUrl s))"
  by (auto simp: pollStyleExtractStatus_pass_def http_Get grows_sleep grows_polled
           split: prod.splits sum.splits)

lemma grows_preview_pass:
  "grows w0 s \<Longrightarrow> grows w0 (snd (pollPreviewStatus_pass requestId s))"
  by (auto simp: pollPreviewStatus_pass_def http_Get grows_sleep grows_polled
           split: prod.splits sum.splits)

lemma grows_image_pass:
  "grows w0 s \<Longrightarrow> grows w0 (snd (pollImageGeneration_pass requestId statusUrl s))"
  by (auto simp: pollImageGeneration_pass_def http_Get grows_sleep grows_polled Let_def
           split: prod.splits sum.splits)

lemma grows_style_loop:
  "grows w0 s \<Longrightarrow> grows w0 (snd (pollStyleExtractStatus_loop rt requestId statusUrl i s))"
proof (induction rt requestId statusUrl i s rule: pollStyleExtractStatus_loop.induct)
  case (1 rt requestId statusUrl i w)
  obtain r w' where pw: "pollStyleExtractStatus_pass rt requestId statusUrl w = (r, w')"
    by (cases "pollStyleExtractStatus_pass rt requestId statusUrl w")
  with grows_style_pass [OF 1(3), of rt requestId statusUrl] have w': "grows w0 w'" by simp
  show ?case
  proof (cases "i < 30")
    case False
    with 1(3) show ?thesis by (subst pollStyleExtractStatus_loop.simps) simp
  next
    case True
    show ?thesis
    proof (cases r)
      case (Return v)
      with True pw w' show ?thesis by (subst pollStyleExtractStatus_loop.simps) simp
    next
      case (Throw err)
      show ?thesis
      proof (cases "i = 30 - 1")
        case True
        with \<open>i < 30\<close> pw w' Throw show ?thesis
          by (subst pollStyleExtractStatus_loop.simps) simp
      next
        case False
        from 1(1) [OF True pw [symmetric] Throw False w'] True pw Throw False show ?thesis
          by (subst pollStyleExtractStatus_loop.simps) simp
      qed
    next
      case Next
      from 1(2) [OF True pw [symmetric] Next w'] True pw Next show ?thesis
        by (subst pollStyleExtractStatus_loop.simps) simp
    qed
  qed
qed

lemma grows_preview_loop:
  "grows w0 s \<Longrightarrow> grows w0 (snd (pollPreviewStatus_loop requestId i s))"
proof (induction requestId i s rule: pollPreviewStatus_loop.induct)
  case (1 requestId i w)
  obtain r w' where pw: "pollPreviewStatus_pass requestId w = (r, w')"
    by (cases "pollPreviewStatus_pass requestId w")
  with grows_preview_pass [OF 1(3), of requestId] have w': "grows w0 w'" by simp
  show ?case
  proof (cases "i < 30")
    case False
    with 1(3) show ?thesis by (subst pollPreviewStatus_loop.simps) simp
  next
    case True
    show ?thesis
    proof (cases r)
      case (Return v)
      with True pw w' show ?thesis by (subst pollPreviewStatus_loop.simps) simp
    next
      case (Throw err)
      show ?thesis
      proof (cases "i = 30 - 1")
        case True
        with \<open>i < 30\<close> pw w' Throw show ?thesis
          by (subst pollPreviewStatus_loop.simps) simp
      next
        case False
        from 1(1) [OF True pw [symmetric] Throw False w'] True pw Throw False show ?thesis
          by (subst pollPreviewStatus_loop.simps) simp
      qed
    next
      case Next
      from 1(2) [OF True pw [symmetric] Next w'] True pw Next show ?thesis
        by (subst pollPreviewStatus_loop.simps) simp
    qed
  qed
qed

lemma grows_image_loop:
  "grows w0 s \<Longrightarrow> grows w0 (snd (pollImageGeneration_loop requestId statusUrl i s))"
proof (induction requestId statusUrl i s rule: pollImageGeneration_loop.induct)
  case (1 requestId statusUrl i w)
  obtain r w' where pw: "pollImageGeneration_pass requestId statusUrl w = (r, w')"
    by (cases "pollImageGeneration_pass requestId statusUrl w")
  with grows_image_pass [OF 1(3), of requestId statusUrl] have w': "grows w0 w'" by simp
  show ?case
  proof (cases "i < 60")
    case False
    with 1(3) show ?thesis by (subst pollImageGeneration_loop.simps) simp
  next
    case True
    show ?thesis
    proof (cases r)
      case (Return v)
      with True pw w' show ?thesis by (subst pollImageGeneration_loop.simps) simp
    next
      case (Throw err)
      show ?thesis
      proof (cases "i = 60 - 1 \<or> has_response_status err")
        case True
        with \<open>i < 60\<close> pw w' Throw show ?thesis
          by (subst pollImageGeneration_loop.simps) auto
      next
        case False
        then have a: "i \<noteq> 60 - 1" and b: "\<not> has_response_status err" by auto
        from 1(1) [OF True pw [symmetric] Throw a b w'] True pw Throw a b show ?thesis
          by (subst pollImageGeneration_loop.simps) simp
      qed
    next
      case Next
      from 1(2) [OF True pw [symmetric] Next w'] True pw Next show ?thesis
        by (subst pollImageGeneration_loop.simps) simp
    qed
  qed
qed

lemma style_pass_polls:
  "grows (polled (status_url_of requestId statusUrl) w)
     (snd (pollStyleExtractStatus_pass rt requestId statusUrl w))"
  by (auto simp: pollStyleExtractStatus_pass_def http_Get grows_sleep grows_refl
           split: prod.splits sum.splits)

lemma preview_pass_polls:
  "grows (polled (''/fibo/status/'' @ requestId) w) (snd (pollPreviewStatus_pass requestId w))"
  by (auto simp: pollPreviewStatus_pass_def http_Get grows_sleep grows_refl
           split: prod.splits sum.splits)

lemma image_pass_polls:
  "grows (polled (status_url_of requestId statusUrl) w)
     (snd (pollImageGeneration_pass requestId statusUrl w))"
  by (auto simp: pollImageGeneration_pass_def http_Get grows_sleep grows_refl Let_def
           split: prod.splits sum.splits)

lemma style_loop_polls:
  assumes "i < 30"
  shows "grows (polled (status_url_of requestId statusUrl) w)
           (snd (pollStyleExtractStatus_loop rt requestId statusUrl i w))"
proof -
  obtain r w' where pw: "pollStyleExtractStatus_pass rt requestId statusUrl w = (r, w')"
    by (cases "pollStyleExtractStatus_pass rt requestId statusUrl w")
  with style_pass_polls [of requestId statusUrl w rt]
  have w': "grows (polled (status_url_of requestId statusUrl) w) w'" by simp
  have "grows (polled (status_url_of requestId statusUrl) w)
          (snd (pollStyleExtractStatus_loop rt requestId statusUrl k w'))" for k
    by (rule grows_style_loop [OF w'])
  with w' assms pw show ?thesis
    by (subst pollStyleExtractStatus_loop.simps) (simp split: pass.splits)
qed

lemma preview_loop_polls:
  assumes "i < 30"
  shows "grows (polled (''/fibo/status/'' @ requestId) w)
           (snd (pollPreviewStatus_loop requestId i w))"
proof -
  obtain r w' where pw: "pollPreviewStatus_pass requestId w = (r, w')"
    by (cases "pollPreviewStatus_pass requestId w")
  with preview_pass_polls [of requestId w]
  have w': "grows (polled (''/fibo/status/'' @ requestId) w) w'" by simp
  have "grows (polled (''/fibo/status/'' @ requestId) w)
          (snd (pollPreviewStatus_loop requestId k w'))" for k
    by (rule grows_preview_loop [OF w'])
  with w' assms pw show ?thesis
    by (subst pollPreviewStatus_loop.simps) (simp split: pass.splits)
qed

lemma image_loop_polls:
  assumes "i < 60"
  shows "grows (polled (status_url_of requestId statusUrl) w)
           (snd (pollImageGeneration_loop requestId statusUrl i w))"
proof -
  obtain r w' where pw: "pollImageGeneration_pass requestId statusUrl w = (r, w')"
    by (cases "pollImageGeneration_pass requestId statusUrl w")
  with image_pass_polls [of requestId statusUrl w]
  have w': "grows (polled (status_url_of requestId statusUrl) w) w'" by simp
  have "grows (polled (status_url_of requestId statusUrl) w)
          (snd (pollImageGeneration_loop requestId statusUrl k w'))" for k
    by (rule grows_image_loop [OF w'])
  with w' assms pw show ?thesis
    by (subst pollImageGeneration_loop.simps) (simp split: pass.splits)
qed

lemma polls_again:
  "grows (polled url (sleep 2000 (polled url w))) s \<Longrightarrow>
   take 3 (new_events w s) = [Get url, Sleep 2000, Get url]"
  by (auto simp: grows_def polled_def sleep_def new_events_def)

text \<open>
  C5, as the code has it. Each polling function is its loop entered at attempt 0.
  Let attempt \<open>i\<close> of a loop (of 30 attempts for style extraction and preview, of 60
  for image generation) be answered with a body whose \<^verbatim>\<open>status\<close> is \<open>st\<close>.
  Style-extraction polling returns the result on the upper-case \<^verbatim>\<open>COMPLETED\<close>;
  image-generation polling returns the result on \<^verbatim>\<open>COMPLETED\<close> and on the lower-case
  \<^verbatim>\<open>completed\<close> alike; preview polling returns on exactly the lower-case
  \<^verbatim>\<open>completed\<close> and \<^verbatim>\<open>failed\<close>, with that status in its result; in each case
  nothing follows the status request. On any other status the loop waits 2 seconds
  and, unless this was the last attempt, sends the status request again and goes on
  as attempt \<open>i + 1\<close>; after the last attempt it raises its timeout error. Nothing
  is said here of \<^verbatim>\<open>ERROR\<close> in style-extraction polling and of \<^verbatim>\<open>ERROR\<close> and
  \<^verbatim>\<open>failed\<close> in image-generation polling.
\<close>

theorem polling_status_vocabularies:
  assumes reply: "remote w (served w) = Inr resp"
    and st: "read_prop (data resp) ''status'' = Inr st"
    and i: "i < 30" and j: "j < 60"
  shows "pollStyleExtractStatus rt requestId statusUrl w
           = pollStyleExtractStatus_loop rt requestId statusUrl 0 w
       \<and> pollImageGeneration requestId statusUrl w
           = pollImageGeneration_loop requestId statusUrl 0 w
       \<and> pollPreviewStatus previewId w = pollPreviewStatus_loop previewId 0 w
       \<and> (is_text st ''COMPLETED'' \<longrightarrow>
            pollStyleExtractStatus_loop rt requestId statusUrl i w
              = (Inr (style_result rt (data resp)), polled (status_url_of requestId statusUrl) w))
       \<and> (\<not> is_text st ''COMPLETED'' \<and> \<not> is_text st ''ERROR'' \<and> i < 29 \<longrightarrow>
            pollStyleExtractStatus_loop rt requestId statusUrl i w
              = pollStyleExtractStatus_loop rt requestId statusUrl (i + 1)
                  (sleep 2000 (polled (status_url_of requestId statusUrl) w))
            \<and> take 3 (new_events w (snd (pollStyleExtractStatus_loop rt requestId statusUrl i w)))
                = [Get (status_url_of requestId statusUrl), Sleep 2000,
                   Get (status_url_of requestId statusUrl)])
       \<and> (\<not> is_text st ''COMPLETED'' \<and> \<not> is_text st ''ERROR'' \<and> i = 29 \<longrightarrow>
            pollStyleExtractStatus_loop rt requestId statusUrl i w
              = (Inl (Error ''Polling timeout for style extraction''),
                 sleep 2000 (polled (status_url_of requestId statusUrl) w)))
       \<and> (is_text st ''COMPLETED'' \<or> is_text st ''completed'' \<longrightarrow>
            \<not> isl (fst (pollImageGeneration_loop requestId statusUrl j w))
            \<and> snd (pollImageGeneration_loop requestId statusUrl j w)
                = polled (status_url_of requestId statusUrl) w)
       \<and> (\<not> is_text st ''COMPLETED'' \<and> \<not> is_text st ''completed''
            \<and> \<not> is_text st ''ERROR'' \<and> \<not> is_text st ''failed'' \<and> j < 59 \<longrightarrow>
            pollImageGeneration_loop requestId statusUrl j w
              = pollImageGeneration_loop requestId statusUrl (j + 1)
                  (sleep 2000 (polled (status_url_of requestId statusUrl) w))
            \<and> take 3 (new_events w (snd (pollImageGeneration_loop requestId statusUrl j w)))
                = [Get (status_url_of requestId statusUrl), Sleep 2000,
                   Get (status_url_of requestId statusUrl)])
       \<and> (\<not> is_text st ''COMPLETED'' \<and> \<not> is_text st ''completed''
            \<and> \<not> is_text st ''ERROR'' \<and> \<not> is_text st ''failed'' \<and> j = 59 \<longrightarrow>
            pollImageGeneration_loop requestId statusUrl j w
              = (Inl (Error ''Polling timeout for image generation''),
                 sleep 2000 (polled (status_url_of requestId statusUrl) w)))
       \<and> (is_text st ''completed'' \<longrightarrow>
            \<not> isl (fst (pollPreviewStatus_loop previewId i w))
            \<and> preview_status (projr (fst (pollPreviewStatus_loop previewId i w))) = ''completed''
            \<and> snd (pollPreviewStatus_loop previewId i w) = polled (''/fibo/status/'' @ previewId) w)
       \<and> (is_text st ''failed'' \<longrightarrow>
            \<not> isl (fst (pollPreviewStatus_loop previewId i w))
            \<and> preview_status (projr (fst (pollPreviewStatus_loop previewId i w))) = ''failed''
            \<and> snd (pollPreviewStatus_loop previewId i w) = polled (''/fibo/status/'' @ previewId) w)
       \<and> (\<not> is_text st ''completed'' \<and> \<not> is_text st ''failed'' \<and> i < 29 \<longrightarrow>
            pollPreviewStatus_loop previewId i w
              = pollPreviewStatus_loop previewId (i + 1)
                  (sleep 2000 (polled (''/fibo/status/'' @ previewId) w))
            \<and> take 3 (new_events w (snd (pollPreviewStatus_loop previewId i w)))
                = [Get (''/fibo/status/'' @ previewId), Sleep 2000,
                   Get (''/fibo/status/'' @ previewId)])
       \<and> (\<not> is_text st ''completed'' \<and> \<not> is_text st ''failed'' \<and> i = 29 \<longrightarrow>
            pollPreviewStatus_loop previewId i w
              = (Inl (Error ''Polling timeout''),
                 sleep 2000 (polled (''/fibo/status/'' @ previewId) w)))"
proof -
  let ?url = "status_url_of requestId statusUrl"
  let ?purl = "''/fibo/status/'' @ previewId"
  have style: "pollStyleExtractStatus_pass rt requestId statusUrl w =
      (if is_text st ''COMPLETED'' then Return (style_result rt (data resp))
       else if is_text st ''ERROR'' then
         Throw (Error (js_String
           (or_else (opt_chain (opt_chain (Some (data resp)) ''error'') ''message'')
              (JStr ''Style extraction failed''))))
       else Next,
       if is_text st ''COMPLETED'' \<or> is_text st ''ERROR''
       then polled ?url w else sleep 2000 (polled ?url w))"
    by (simp add: pollStyleExtractStatus_pass_def http_Get reply st)
  have image: "\<not> is_text st ''ERROR'' \<and> \<not> is_text st ''failed'' \<Longrightarrow>
      (case pollImageGeneration_pass requestId statusUrl w of
         (Return r, w') \<Rightarrow> (is_text st ''COMPLETED'' \<or> is_text st ''completed'')
                          \<and> w' = polled ?url w
       | (Throw e, w') \<Rightarrow> False
       | (Next, w') \<Rightarrow> \<not> (is_text st ''COMPLETED'' \<or> is_text st ''completed'')
                       \<and> w' = sleep 2000 (polled ?url w))"
    by (simp add: pollImageGeneration_pass_def http_Get reply st Let_def)
  have preview: "(case pollPreviewStatus_pass previewId w of
         (Return r, w') \<Rightarrow> (is_text st ''completed'' \<or> is_text st ''failed'')
                          \<and> is_text st (preview_status r)
                          \<and> w' = polled ?purl w
       | (Throw e, w') \<Rightarrow> False
       | (Next, w') \<Rightarrow> \<not> (is_text st ''completed'' \<or> is_text st ''failed'')
                       \<and> w' = sleep 2000 (polled ?purl w))"
    by (simp add: pollPreviewStatus_pass_def http_Get reply st)
  have entry1: "pollStyleExtractStatus rt requestId statusUrl w
           = pollStyleExtractStatus_loop rt requestId statusUrl 0 w"
    by (simp add: pollStyleExtractStatus_def)
  have entry2: "pollImageGeneration requestId statusUrl w
           = pollImageGeneration_loop requestId statusUrl 0 w"
    by (simp add: pollImageGeneration_def)
  have entry3: "pollPreviewStatus previewId w = pollPreviewStatus_loop previewId 0 w"
    by (simp add: pollPreviewStatus_def)
  have a: "is_text st ''COMPLETED'' \<longrightarrow>
            pollStyleExtractStatus_loop rt requestId statusUrl i w
              = (Inr (style_result rt (data resp)), polled ?url w)"
    using i by (subst pollStyleExtractStatus_loop.simps) (simp add: style)
  have b: "\<not> is_text st ''COMPLETED'' \<and> \<not> is_text st ''ERROR'' \<and> i < 29 \<longrightarrow>
            pollStyleExtractStatus_loop rt requestId statusUrl i w
              = pollStyleExtractStatus_loop rt requestId statusUrl (i + 1)
                  (sleep 2000 (polled ?url w))
            \<and> take 3 (new_events w (snd (pollStyleExtractStatus_loop rt requestId statusUrl i w)))
                = [Get ?url, Sleep 2000, Get ?url]"
  proof
    assume t: "\<not> is_text st ''COMPLETED'' \<and> \<not> is_text st ''ERROR'' \<and> i < 29"
    have eq: "pollStyleExtractStatus_loop rt requestId statusUrl i w
              = pollStyleExtractStatus_loop rt requestId statusUrl (i + 1)
                  (sleep 2000 (polled ?url w))"
      using i t by (subst pollStyleExtractStatus_loop.simps) (simp add: style)
    have "i + 1 < 30" using t by simp
    from polls_again [OF style_loop_polls [OF this]] eq
    show "pollStyleExtractStatus_loop rt requestId statusUrl i w
              = pollStyleExtractStatus_loop rt requestId statusUrl (i + 1)
                  (sleep 2000 (polled ?url w))
            \<and> take 3 (new_events w (snd (pollStyleExtractStatus_loop rt requestId statusUrl i w)))
                = [Get ?url, Sleep 2000, Get ?url]"
      by simp
  qed
  have c: "\<not> is_text st ''COMPLETED'' \<and> \<not> is_text st ''ERROR'' \<and> i = 29 \<longrightarrow>
            pollStyleExtractStatus_loop rt requestId statusUrl i w
              = (Inl (Error ''Polling timeout for style extraction''),
                 sleep 2000 (polled ?url w))"
    by (subst pollStyleExtractStatus_loop.simps, subst (2) pollStyleExtractStatus_loop.simps)
       (simp add: style)
  have d: "is_text st ''COMPLETED'' \<or> is_text st ''completed'' \<longrightarrow>
            \<not> isl (fst (pollImageGeneration_loop requestId statusUrl j w))
            \<and> snd (pollImageGeneration_loop requestId statusUrl j w) = polled ?url w"
  proof
    assume t: "is_text st ''COMPLETED'' \<or> is_text st ''completed''"
    then have "\<not> is_text st ''ERROR'' \<and> \<not> is_text st ''failed''" by (auto simp: is_text_def)
    from image [OF this] t j show "\<not> isl (fst (pollImageGeneration_loop requestId statusUrl j w))
            \<and> snd (pollImageGeneration_loop requestId statusUrl j w) = polled ?url w"
      by (subst (1 2) pollImageGeneration_loop.simps) (auto split: prod.splits pass.splits)
  qed
  have e: "\<not> is_text st ''COMPLETED'' \<and> \<not> is_text st ''completed''
            \<and> \<not> is_text st ''ERROR'' \<and> \<not> is_text st ''failed'' \<and> j < 59 \<longrightarrow>
            pollImageGeneration_loop requestId statusUrl j w
              = pollImageGeneration_loop requestId statusUrl (j + 1) (sleep 2000 (polled ?url w))
            \<and> take 3 (new_events w (snd (pollImageGeneration_loop requestId statusUrl j w)))
                = [Get ?url, Sleep 2000, Get ?url]"
  proof
    assume t: "\<not> is_text st ''COMPLETED'' \<and> \<not> is_text st ''completed''
            \<and> \<not> is_text st ''ERROR'' \<and> \<not> is_text st ''failed'' \<and> j < 59"
    with image j have eq: "pollImageGeneration_loop requestId statusUrl j w
              = pollImageGeneration_loop requestId statusUrl (j + 1) (sleep 2000 (polled ?url w))"
      by (subst pollImageGeneration_loop.simps) (auto split: prod.splits pass.splits)
    have "j + 1 < 60" using t by simp
    from polls_again [OF image_loop_polls [OF this]] eq
    show "pollImageGeneration_loop requestId statusUrl j w
              = pollImageGeneration_loop requestId statusUrl (j + 1) (sleep 2000 (polled ?url w))
            \<and> take 3 (new_events w (snd (pollImageGeneration_loop requestId statusUrl j w)))
                = [Get ?url, Sleep 2000, Get ?url]"
      by simp
  qed
  have f: "\<not> is_text st ''COMPLETED'' \<and> \<not> is_text st ''completed''
            \<and> \<not> is_text st ''ERROR'' \<and> \<not> is_text st ''failed'' \<and> j = 59 \<longrightarrow>
            pollImageGeneration_loop requestId statusUrl j w
              = (Inl (Error ''Polling timeout for image generation''),
                 sleep 2000 (polled ?url w))"
    using image
    by (subst pollImageGeneration_loop.simps, subst (2) pollImageGeneration_loop.simps)
       (auto split: prod.splits pass.splits)
  have g: "is_text st t \<longrightarrow>
            \<not> isl (fst (pollPreviewStatus_loop previewId i w))
            \<and> preview_status (projr (fst (pollPreviewStatus_loop previewId i w))) = t
            \<and> snd (pollPreviewStatus_loop previewId i w) = polled ?purl w"
    if "t = ''completed'' \<or> t = ''failed''" for t
    using preview that i
    by (subst (1 2 3) pollPreviewStatus_loop.simps)
       (auto split: prod.splits pass.splits simp: is_text_def)
  have h: "\<not> is_text st ''completed'' \<and> \<not> is_text st ''failed'' \<and> i < 29 \<longrightarrow>
            pollPreviewStatus_loop previewId i w
              = pollPreviewStatus_loop previewId (i + 1) (sleep 2000 (polled ?purl w))
            \<and> take 3 (new_events w (snd (pollPreviewStatus_loop previewId i w)))
                = [Get ?purl, Sleep 2000, Get ?purl]"
  proof
    assume t: "\<not> is_text st ''completed'' \<and> \<not> is_text st ''failed'' \<and> i < 29"
    with preview i have eq: "pollPreviewStatus_loop previewId i w
              = pollPreviewStatus_loop previewId (i + 1) (sleep 2000 (polled ?purl w))"
      by (subst pollPreviewStatus_loop.simps) (auto split: prod.splits pass.splits)
    have "i + 1 < 30" using t by simp
    from polls_again [OF preview_loop_polls [OF this]] eq
    show "pollPreviewStatus_loop previewId i w
              = pollPreviewStatus_loop previewId (i + 1) (sleep 2000 (polled ?purl w))
            \<and> take 3 (new_events w (snd (pollPreviewStatus_loop previewId i w)))
                = [Get ?purl, Sleep 2000, Get ?purl]"
      by simp
  qed
  have k: "\<not> is_text st ''completed'' \<and> \<not> is_text st ''failed'' \<and> i = 29 \<longrightarrow>
            pollPreviewStatus_loop previewId i w
              = (Inl (Error ''Polling timeout''), sleep 2000 (polled ?purl w))"
    using preview
    by (subst pollPreviewStatus_loop.simps, subst (2) pollPreviewStatus_loop.simps)
       (auto split: prod.splits pass.splits)
  have gc: "is_text st ''completed'' \<longrightarrow>
            \<not> isl (fst (pollPreviewStatus_loop previewId i w))
            \<and> preview_status (projr (fst (pollPreviewStatus_loop previewId i w))) = ''completed''
            \<and> snd (pollPreviewStatus_loop previewId i w) = polled ?purl w"
    by (rule g) simp
  have gf: "is_text st ''failed'' \<longrightarrow>
            \<not> isl (fst (pollPreviewStatus_loop previewId i w))
            \<and> preview_status (projr (fst (pollPreviewStatus_loop previewId i w))) = ''failed''
            \<and> snd (pollPreviewStatus_loop previewId i w) = polled ?purl w"
    by (rule g) simp
  show ?thesis
    by (intro conjI)
       (fact entry1, fact entry2, fact entry3, fact a, fact b, fact c, fact d, fact e, fact f,
        fact gc, fact gf, fact h, fact k)
qed

text \<open>
  The claim as stated fails for image generation: the lower-case \<^verbatim>\<open>completed\<close> ends
  its polling with the result.
\<close>

theorem polling_status_vocabularies_counterexample:
  "pollImageGeneration (Some (JStr ''r1'')) (Some (JStr ''/status/r1'')) (world_of lower_case_service)
   = (Inr \<lparr> image_url = Some (JStr ''https://cdn/img.png''), gen_seed = JNum 42,
            request_id = Some (JStr ''r1'') \<rparr>,
      \<lparr> remote = lower_case_service, served = 1, trace = [Get ''/status/r1''] \<rparr>)"
  unfolding pollImageGeneration_def
  by (subst pollImageGeneration_loop.simps)
     (simp add: pollImageGeneration_pass_def http_def world_of_def lower_case_service_def
        is_text_def or_else_def status_url_of_def js_or_def)

theorem polling_status_vocabularies_witness:
  "pollStyleExtractStatus rt_sample None (Some (JStr ''/status/r1'')) (world_of lower_then_upper)
     = (Inr \<lparr> structured_prompt = JStr ''{}'', seed = JNum 11, imageIndex = None \<rparr>,
        \<lparr> remote = lower_then_upper, served = 2,
          trace = [Get ''/status/r1'', Sleep 2000, Get ''/status/r1''] \<rparr>)
   \<and> preview_status (projr (fst (pollPreviewStatus ''p1'' (world_of upper_then_lower))))
       = ''completed''
   \<and> snd (pollPreviewStatus ''p1'' (world_of upper_then_lower))
       = \<lparr> remote = upper_then_lower, served = 2,
           trace = [Get ''/fibo/status/p1'', Sleep 2000, Get ''/fibo/status/p1''] \<rparr>
   \<and> take 3 (trace (snd (pollImageGeneration None (Some (JStr ''/status/r1''))
                            (world_of pending_service))))
       = [Get ''/status/r1'', Sleep 2000, Get ''/status/r1'']
   \<and> pollImageGeneration_loop None (Some (JStr ''/status/r1'')) 59 (world_of pending_service)
       = (Inl (Error ''Polling timeout for image generation''),
          \<lparr> remote = pending_service, served = 1,
            trace = [Get ''/status/r1'', Sleep 2000] \<rparr>)"
proof -
  let ?url = "Some (JStr ''/status/r1'')"
  let ?lower = "\<lparr> status = 200,
                   data = JObj [(''status'', JStr ''completed''),
                                (''structured_prompt'', JStr ''{}''), (''seed'', JNum 11)] \<rparr>"
  let ?upper = "\<lparr> status = 200,
                   data = JObj [(''status'', JStr ''COMPLETED''),
                                (''structured_prompt'', JStr ''{}''), (''seed'', JNum 11)] \<rparr>"
  let ?pu = "\<lparr> status = 200,
                data = JObj [(''status'', JStr ''COMPLETED''),
                             (''images'', JArr [JStr ''https://cdn/img.png''])] \<rparr>"
  let ?pl = "\<lparr> status = 200,
                data = JObj [(''status'', JStr ''completed''),
                             (''images'', JArr [JStr ''https://cdn/img.png''])] \<rparr>"
  let ?pending = "\<lparr> status = 200, data = JObj [(''status'', JStr ''IN_PROGRESS'')] \<rparr>"
  let ?w0 = "world_of lower_then_upper"
  let ?w1 = "sleep 2000 (polled ''/status/r1'' ?w0)"
  let ?v0 = "world_of upper_then_lower"
  let ?v1 = "sleep 2000 (polled ''/fibo/status/p1'' ?v0)"
  let ?x0 = "world_of pending_service"
  have u: "status_url_of None ?url = ''/status/r1''"
    by (simp add: status_url_of_def or_else_def)
  have lt: "(0::nat) < 30" "(1::nat) < 30" "(29::nat) < 30" "(0::nat) < 60" "(59::nat) < 60"
    by simp_all
  have r: "remote ?w0 (served ?w0) = Inr ?lower" "remote ?w1 (served ?w1) = Inr ?upper"
    "remote ?v0 (served ?v0) = Inr ?pu" "remote ?v1 (served ?v1) = Inr ?pl"
    "remote ?x0 (served ?x0) = Inr ?pending"
    by (simp_all add: world_of_def lower_then_upper_def upper_then_lower_def pending_service_def
          sleep_def polled_def)
  have st: "read_prop (data ?lower) ''status'' = Inr (Some (JStr ''completed''))"
    "read_prop (data ?upper) ''status'' = Inr (Some (JStr ''COMPLETED''))"
    "read_prop (data ?pu) ''status'' = Inr (Some (JStr ''COMPLETED''))"
    "read_prop (data ?pl) ''status'' = Inr (Some (JStr ''completed''))"
    "read_prop (data ?pending) ''status'' = Inr (Some (JStr ''IN_PROGRESS''))"
    by simp_all
  note first_style =
    polling_status_vocabularies [OF r(1) st(1) lt(1) lt(4), of rt_sample None ?url "''p1''"]
  note second_style =
    polling_status_vocabularies [OF r(2) st(2) lt(2) lt(4), of rt_sample None ?url "''p1''"]
  note first_preview =
    polling_status_vocabularies [OF r(3) st(3) lt(1) lt(4), of rt_sample None ?url "''p1''"]
  note second_preview =
    polling_status_vocabularies [OF r(4) st(4) lt(2) lt(4), of rt_sample None ?url "''p1''"]
  note first_image =
    polling_status_vocabularies [OF r(5) st(5) lt(1) lt(4), of rt_sample None ?url "''p1''"]
  note last_image =
    polling_status_vocabularies [OF r(5) st(5) lt(3) lt(5), of rt_sample None ?url "''p1''"]
  have s0: "pollStyleExtractStatus rt_sample None ?url ?w0
              = pollStyleExtractStatus_loop rt_sample None ?url 1 ?w1"
    using first_style [THEN conjunct1] first_style [THEN conjunct2, THEN conjunct2, THEN conjunct2, THEN conjunct2, THEN conjunct1]
    by (simp add: is_text_def u)
  have s1: "pollStyleExtractStatus_loop rt_sample None ?url 1 ?w1
              = (Inr (style_result rt_sample (data ?upper)), polled ''/status/r1'' ?w1)"
    using second_style [THEN conjunct2, THEN conjunct2, THEN conjunct2, THEN conjunct1] by (simp add: is_text_def u)
  have p0: "pollPreviewStatus ''p1'' ?v0 = pollPreviewStatus_loop ''p1'' 1 ?v1"
    using first_preview [THEN conjunct2, THEN conjunct2, THEN conjunct1] first_preview [THEN conjunct2, THEN conjunct2, THEN conjunct2, THEN conjunct2, THEN conjunct2, THEN conjunct2, THEN conjunct2, THEN conjunct2, THEN conjunct2, THEN conjunct2, THEN conjunct2, THEN conjunct1]
    by (simp add: is_text_def)
  have p1: "preview_status (projr (fst (pollPreviewStatus_loop ''p1'' 1 ?v1))) = ''completed''
            \<and> snd (pollPreviewStatus_loop ''p1'' 1 ?v1) = polled ''/fibo/status/p1'' ?v1"
    using second_preview [THEN conjunct2, THEN conjunct2, THEN conjunct2, THEN conjunct2, THEN conjunct2, THEN conjunct2, THEN conjunct2, THEN conjunct2, THEN conjunct2, THEN conjunct1] by (simp add: is_text_def)
  have i0: "take 3 (new_events ?x0 (snd (pollImageGeneration None ?url ?x0)))
              = [Get ''/status/r1'', Sleep 2000, Get ''/status/r1'']"
    using first_image [THEN conjunct2, THEN conjunct2, THEN conjunct2, THEN conjunct2, THEN conjunct2, THEN conjunct2, THEN conjunct2, THEN conjunct1, THEN mp, THEN conjunct2]
    by (simp add: is_text_def u pollImageGeneration_def)
  have i59: "pollImageGeneration_loop None ?url 59 ?x0
              = (Inl (Error ''Polling timeout for image generation''),
                 sleep 2000 (polled ''/status/r1'' ?x0))"
    using last_image [THEN conjunct2, THEN conjunct2, THEN conjunct2, THEN conjunct2, THEN conjunct2, THEN conjunct2, THEN conjunct2, THEN conjunct2, THEN conjunct1] by (simp add: is_text_def u)
  from s0 s1 p0 p1 i0 i59 show ?thesis
    by (simp add: world_of_def sleep_def polled_def new_events_def style_result_def or_else_def)
qed

section \<open>Properties of extractStyle\<close>

lemma extractStyle_try_invalid:
  "length bufs \<noteq> 1 \<Longrightarrow> \<exists>m. extractStyle_try rt bufs w = (Inl (Error m), w)"
  by (cases bufs; cases "tl bufs")
     (auto simp: extractStyle_try_def split: option.splits list.splits)

lemma extractStyle_attempt_invalid:
  "length bufs \<noteq> 1 \<Longrightarrow> \<exists>m. extractStyle_attempt rt bufs w = (Inl (Error m), w)"
  using extractStyle_try_invalid [of bufs rt w]
  by (auto simp: extractStyle_attempt_def extractStyle_catch_def)

lemma retry_constant_failure:
  assumes "\<And>s. fn s = (Inl err, s)"
  shows "retryWithBackoff fn sl defaultOptions s = (Inl err, sl 4000 (sl 2000 (sl 1000 s)))"
  unfolding retryWithBackoff_def
  by (subst retry_loop.simps, subst retry_loop.simps, subst retry_loop.simps,
      subst retry_loop.simps) (simp add: assms defaultOptions_def)

lemma retry_constant_failure_counted:
  assumes "\<And>s. fn s = (Inl err, s)"
  shows "retryWithBackoff (counted fn) (counted_sleep sl) defaultOptions (n, s)
         = (Inl err, (n + 4, sl 4000 (sl 2000 (sl 1000 s))))"
  unfolding retryWithBackoff_def
  by (subst retry_loop.simps, subst retry_loop.simps, subst retry_loop.simps,
      subst retry_loop.simps)
     (simp add: assms defaultOptions_def counted_def counted_sleep_def)

text \<open>
  C3, as the code has it. For a batch whose size is not 1, \<^verbatim>\<open>extractStyle\<close> raises an
  error without any HTTP call; the check stands inside the operation handed to the
  retrier, which retries every error alike: the operation is invoked 4 times, with
  the backoff delays 1000, 2000 and 4000 ms in between, before the error is raised.
\<close>

theorem extractStyle_validation_is_retried:
  assumes "length bufs \<noteq> 1"
  shows "\<exists>m. extractStyle rt bufs w
               = (Inl (Error m), w\<lparr> trace := trace w @ [Sleep 1000, Sleep 2000, Sleep 4000] \<rparr>)
            \<and> retryWithBackoff (counted (extractStyle_attempt rt bufs)) (counted_sleep sleep)
                 defaultOptions (0, w)
               = (Inl (Error m),
                  (4, w\<lparr> trace := trace w @ [Sleep 1000, Sleep 2000, Sleep 4000] \<rparr>))"
proof -
  have "\<exists>m. \<forall>s. extractStyle_attempt rt bufs s = (Inl (Error m), s)"
  proof -
    obtain m where "extractStyle_attempt rt bufs w = (Inl (Error m), w)"
      using extractStyle_attempt_invalid [OF assms] by blast
    moreover have "fst (extractStyle_attempt rt bufs s) = fst (extractStyle_attempt rt bufs w)
        \<and> snd (extractStyle_attempt rt bufs s) = s" for s
      using assms
      by (cases bufs; cases "tl bufs")
         (auto simp: extractStyle_attempt_def extractStyle_try_def extractStyle_catch_def
               split: option.splits list.splits)
    ultimately show ?thesis by (metis fst_conv prod.collapse)
  qed
  then obtain m where m: "\<And>s. extractStyle_attempt rt bufs s = (Inl (Error m), s)" by blast
  show ?thesis
    using retry_constant_failure [of "extractStyle_attempt rt bufs" "Error m" sleep w, OF m]
      retry_constant_failure_counted [of "extractStyle_attempt rt bufs" "Error m" sleep 0 w, OF m]
    by (auto simp: extractStyle_def sleep_def)
qed

text \<open>
  The claim as stated fails for the empty batch: four invocations and three delays,
  not one invocation without delay.
\<close>

theorem extractStyle_validation_is_retried_counterexample:
  "retryWithBackoff (counted (extractStyle_attempt rt_sample [])) (counted_sleep sleep)
     defaultOptions (0, world_of error_service)
   = (Inl (Error ''Bria API v2 supports only 1 image per request. Please send images one at a time.''),
      (4, \<lparr> remote = error_service, served = 0,
            trace = [Sleep 1000, Sleep 2000, Sleep 4000] \<rparr>))"
proof -
  have "extractStyle_attempt rt_sample [] s =
      (Inl (Error ''Bria API v2 supports only 1 image per request. Please send images one at a time.''), s)"
    for s
    by (simp add: extractStyle_attempt_def extractStyle_try_def extractStyle_catch_def)
  from retry_constant_failure_counted [of "extractStyle_attempt rt_sample []", OF this]
  show ?thesis by (simp add: sleep_def world_of_def)
qed

theorem extractStyle_validation_is_retried_witness:
  "length [''AB'', ''CD''] \<noteq> 1
   \<and> (\<exists>m. extractStyle rt_sample [''AB'', ''CD''] (world_of error_service)
            = (Inl (Error m),
               \<lparr> remote = error_service, served = 0,
                 trace = [Sleep 1000, Sleep 2000, Sleep 4000] \<rparr>))"
  using extractStyle_validation_is_retried [of "[''AB'', ''CD'']" rt_sample "world_of error_service"]
  by (auto simp: world_of_def)

section \<open>Properties of the generation endpoint\<close>

lemma posted_append: "posted (xs @ ys) = posted xs @ posted ys"
  by (induction xs rule: posted.induct) auto

lemma only_posts_refl: "only_posts ok w w"
  by (simp add: only_posts_def)

lemma only_posts_new_events:
  "only_posts ok w s \<Longrightarrow> list_all ok (posted (new_events w s))"
  by (auto simp: only_posts_def new_events_def)

lemma only_posts_sleep: "only_posts ok w0 s \<Longrightarrow> only_posts ok w0 (sleep d s)"
  by (auto simp: only_posts_def sleep_def posted_append)

lemma only_posts_get: "only_posts ok w0 s \<Longrightarrow> only_posts ok w0 (snd (http (Get url) s))"
  by (auto simp: only_posts_def http_def posted_append)

lemma only_posts_post:
  "ok payload \<Longrightarrow> only_posts ok w0 s \<Longrightarrow> only_posts ok w0 (snd (http (Post url payload) s))"
  by (auto simp: only_posts_def http_def posted_append)

lemma only_posts_image_pass:
  "only_posts ok w0 s \<Longrightarrow> only_posts ok w0 (snd (pollImageGeneration_pass requestId statusUrl s))"
  using only_posts_get [of ok w0 s "status_url_of requestId statusUrl"]
  by (auto simp: pollImageGeneration_pass_def Let_def only_posts_sleep
           split: prod.splits sum.splits)

lemma only_posts_image_loop:
  "only_posts ok w0 s \<Longrightarrow>
   only_posts ok w0 (snd (pollImageGeneration_loop requestId statusUrl i s))"
proof (induction requestId statusUrl i s rule: pollImageGeneration_loop.induct)
  case (1 requestId statusUrl i w)
  have p: "only_posts ok w0 (snd (pollImageGeneration_pass requestId statusUrl w))"
    using 1(3) by (rule only_posts_image_pass)
  show ?case
  proof (cases "i < 60")
    case False
    with 1(3) show ?thesis by (subst pollImageGeneration_loop.simps) simp
  next
    case True
    obtain r w' where pw: "pollImageGeneration_pass requestId statusUrl w = (r, w')"
      by (cases "pollImageGeneration_pass requestId statusUrl w")
    with p have w': "only_posts ok w0 w'" by simp
    show ?thesis
    proof (cases r)
      case (Return v)
      with True pw w' show ?thesis by (subst pollImageGeneration_loop.simps) simp
    next
      case (Throw err)
      show ?thesis
      proof (cases "i = 60 - 1 \<or> has_response_status err")
        case True
        with \<open>i < 60\<close> pw w' Throw show ?thesis
          by (subst pollImageGeneration_loop.simps) auto
      next
        case False
        then have a: "i \<noteq> 60 - 1" and b: "\<not> has_response_status err" by auto
        from 1(1) [OF True pw [symmetric] Throw a b w'] True pw Throw a b show ?thesis
          by (subst pollImageGeneration_loop.simps) simp
      qed
    next
      case Next
      from 1(2) [OF True pw [symmetric] Next w'] True pw Next show ?thesis
        by (subst pollImageGeneration_loop.simps) simp
    qed
  qed
qed

lemma invariant_retry_loop:
  assumes fn: "\<And>s. I s \<Longrightarrow> I (snd (fn s))" and sl: "\<And>d s. I s \<Longrightarrow> I (sl d s)"
  shows "n = nat (maxRetries opts + 1 - attempt) \<Longrightarrow> I s \<Longrightarrow>
         I (snd (retry_loop fn sl opts attempt delay lastError s))"
proof (induction n arbitrary: attempt delay lastError s)
  case 0
  then have "\<not> attempt \<le> maxRetries opts" by simp
  with 0 show ?case by (subst retry_loop.simps) (simp split: option.splits)
next
  case (Suc n)
  then have le: "attempt \<le> maxRetries opts" by simp
  obtain r s' where rs: "fn s = (r, s')" by (cases "fn s")
  with fn [OF Suc.prems(2)] have s': "I s'" by simp
  show ?case
  proof (cases r)
    case (Inr v)
    with le rs s' show ?thesis by (subst retry_loop.simps) simp
  next
    case (Inl err)
    show ?thesis
    proof (cases "attempt = maxRetries opts")
      case True
      with le rs s' Inl show ?thesis by (subst retry_loop.simps) simp
    next
      case False
      have n: "n = nat (maxRetries opts + 1 - (attempt + 1))" using Suc.prems(1) by linarith
      have "I (snd (retry_loop fn sl opts (attempt + 1)
                 (min (delay * backoffMultiplier opts) (maxDelay opts)) (Some err)
                 (sl delay s')))"
        by (rule Suc.IH [OF n sl [OF s']])
      with le rs Inl False show ?thesis by (subst retry_loop.simps) simp
    qed
  qed
qed

lemma invariant_retryWithBackoff:
  assumes "\<And>s. I s \<Longrightarrow> I (snd (fn s))" and "\<And>d s. I s \<Longrightarrow> I (sl d s)" and "I s"
  shows "I (snd (retryWithBackoff fn sl opts s))"
  unfolding retryWithBackoff_def
  using invariant_retry_loop [of I fn sl _ opts 0 s, OF assms(1,2) refl assms(3)] by simp

lemma only_posts_generateImage_try:
  "ok (JObj (generateImage_payload request)) \<Longrightarrow> only_posts ok w0 s \<Longrightarrow>
   only_posts ok w0 (snd (generateImage_try request s))"
  using only_posts_post [of ok "JObj (generateImage_payload request)" w0 s "''/image/generate''"]
  by (auto simp: generateImage_try_def Let_def pollImageGeneration_def only_posts_image_loop
           split: prod.splits sum.splits)

lemma only_posts_generateImage:
  assumes "ok (JObj (generateImage_payload request))" and "only_posts ok w0 s"
  shows "only_posts ok w0 (snd (generateImage rt request s))"
  unfolding generateImage_def
proof (rule invariant_retryWithBackoff [where I = "only_posts ok w0"])
  show "only_posts ok w0 (snd (generateImage_attempt rt request s))" if "only_posts ok w0 s" for s
    using only_posts_generateImage_try [OF assms(1) that]
    by (auto simp: generateImage_attempt_def split: prod.splits sum.splits)
  show "only_posts ok w0 (sleep d s)" if "only_posts ok w0 s" for d s
    using that by (rule only_posts_sleep)
  show "only_posts ok w0 s" by (rule assms(2))
qed

lemma only_posts_generateImage_post:
  assumes "\<And>p sp sd. final_prompts rt body = (p, sp, sd) \<Longrightarrow>
             ok (JObj (generateImage_payload (request_of p sp (body_seed body))))"
  shows "only_posts ok w (snd (generateImage_post rt e body w))"
proof -
  obtain p sp sd where f: "final_prompts rt body = (p, sp, sd)"
    by (cases "final_prompts rt body") auto
  from assms [OF f] only_posts_generateImage [of ok _ w w rt, OF _ only_posts_refl]
  have "only_posts ok w (snd (generateImage rt (request_of p sp (body_seed body)) w))" by blast
  then show ?thesis
    by (auto simp: generateImage_post_def f only_posts_refl split: sum.splits prod.splits)
qed



lemma generateImage_answered_at_once:
  assumes "remote w (served w) = Inr \<lparr> status = 200, data = JObj ms \<rparr>"
  shows "trace (snd (generateImage rt request w))
           = trace w @ [Post ''/image/generate'' (JObj (generateImage_payload request))]"
  unfolding generateImage_def retryWithBackoff_def
  by (subst retry_loop.simps)
     (simp add: defaultOptions_def generateImage_attempt_def generateImage_try_def http_def
        assms Let_def)

lemma final_prompts_not_json:
  "final_prompts rt_sample (bicycle_body ''not json'')
     = (Some (JStr ''a red bicycle''), None, Some (only_original (JStr ''not json'')))"
  by (simp add: final_prompts_def bicycle_body_def parseStructuredPrompt_def parse_json_def
        rt_sample_def bind_result_def keys_length_def only_original_def count_key_def)

lemma generateImage_post_answered_at_once:
  assumes "remote w (served w) = Inr \<lparr> status = 200, data = JObj ms \<rparr>"
    and "truthy_opt (body_prompt body)"
    and "is_string (body_structured_prompt body)"
    and "getBriaClient e = Inr ()"
    and "final_prompts rt body = (p, sp, sd)"
  shows "new_events w (snd (generateImage_post rt e body w))
           = [Post ''/image/generate''
                (JObj (generateImage_payload (request_of p sp (body_seed body))))]"
proof -
  obtain r w' where g: "generateImage rt (request_of p sp (body_seed body)) w = (r, w')"
    by (cases "generateImage rt (request_of p sp (body_seed body)) w")
  with generateImage_answered_at_once [OF assms(1), of rt "request_of p sp (body_seed body)"]
  have "trace w' = trace w @ [Post ''/image/generate''
                (JObj (generateImage_payload (request_of p sp (body_seed body))))]"
    by simp
  with g assms(2-5) show ?thesis
    by (cases r) (simp_all add: generateImage_post_def new_events_def)
qed

lemma sample_reply:
  "remote (world_of lower_case_service) (served (world_of lower_case_service))
     = Inr \<lparr> status = 200,
               data = JObj [(''status'', JStr ''completed''),
                            (''image_url'', JStr ''https://cdn/img.png''),
                            (''seed'', JNum 42)] \<rparr>"
  by (simp add: world_of_def lower_case_service_def)

lemma sample_key: "getBriaClient env_sample = Inr ()"
  by (simp add: getBriaClient_def env_sample_def)

lemma posted_not_json:
  "posted (new_events (world_of lower_case_service)
             (snd (generateImage_post rt_sample env_sample (bicycle_body ''not json'')
                     (world_of lower_case_service))))
   = [JObj [(''sync'', JBool True), (''prompt'', JStr ''a red bicycle''), (''seed'', JNum 7)]]"
  using generateImage_post_answered_at_once
          [OF sample_reply _ _ sample_key final_prompts_not_json]
  by (simp add: bicycle_body_def request_of_def generateImage_payload_def)

text \<open>
  C10. Whatever the inbound body says, its \<^verbatim>\<open>sync\<close> field included, every generation
  request that the handler sends to the remote service has \<^verbatim>\<open>sync\<close> equal to
  \<^verbatim>\<open>true\<close>.
\<close>

theorem outbound_sync_is_true:
  "list_all sync_is_true (posted (new_events w (snd (generateImage_post rt e body w))))"
proof (rule only_posts_new_events, rule only_posts_generateImage_post)
  fix p sp sd
  show "sync_is_true (JObj (generateImage_payload (request_of p sp (body_seed body))))"
    by (simp add: sync_is_true_def generateImage_payload_def request_of_def)
qed

theorem outbound_sync_is_true_witness:
  "body_sync (bicycle_body ''not json'') = Some (JBool False)
   \<and> posted (new_events (world_of lower_case_service)
               (snd (generateImage_post rt_sample env_sample (bicycle_body ''not json'')
                       (world_of lower_case_service))))
       = [JObj [(''sync'', JBool True), (''prompt'', JStr ''a red bicycle''), (''seed'', JNum 7)]]
   \<and> list_all sync_is_true
         (posted (new_events (world_of lower_case_service)
                    (snd (generateImage_post rt_sample env_sample (bicycle_body ''not json'')
                            (world_of lower_case_service)))))"
  using outbound_sync_is_true [of "world_of lower_case_service" rt_sample env_sample
          "bicycle_body ''not json''"] posted_not_json
  by (simp add: bicycle_body_def)










section \<open>Properties of the extraction endpoint\<close>















lemma grows_http: "grows w0 s \<Longrightarrow> grows w0 (snd (http request s))"
  by (auto simp: grows_def http_def)





lemma client_worlds_length: "length (client_worlds rt bufs w) = Suc (length bufs)"
  by (induction bufs arbitrary: w) simp_all


lemma client_worlds_not_Nil: "client_worlds rt bufs w \<noteq> []"
  by (cases bufs) simp_all

lemma client_worlds_last:
  "last (client_worlds rt (b # rest) w)
     = last (client_worlds rt rest (snd (extractStyle rt [b] w)))"
  by (simp add: client_worlds_not_Nil)









lemma upload_scan_beyond_maxCount:
  "index \<le> maxCount \<Longrightarrow> maxCount < index + length fs \<Longrightarrow>
   upload_scan maxCount filesLimit fileSize index fs \<noteq> None"
proof (induction fs arbitrary: index)
  case Nil
  then show ?case by simp
next
  case (Cons f rest)
  show ?case
  proof (cases "index < maxCount")
    case True
    with Cons.prems have "index + 1 \<le> maxCount" "maxCount < index + 1 + length rest" by auto
    from Cons.IH [OF this] show ?thesis by (auto split: option.splits)
  next
    case False
    then show ?thesis by simp
  qed
qed

lemma handleMulterError_400: "\<exists>m. handleMulterError err = ErrorReply 400 m None"
  by (cases err) (auto simp: handleMulterError_def)

lemma more_than_five_rejected:
  assumes "5 < length (files request)"
  shows "\<exists>m. styleExtract_post rt e request w = (ErrorReply 400 m None, w)"
proof -
  from upload_scan_beyond_maxCount [of 0 5 "files request" 20 "MAX_FILE_SIZE e"] assms
  obtain err where "upload_array e (files request) = Some err"
    by (auto simp: upload_array_def)
  with handleMulterError_400 [of err] show ?thesis
    by (auto simp: styleExtract_post_def)
qed

text \<open>
  C2, at a request with six valid images: the upload middleware is configured with
  \<^verbatim>\<open>upload.array('images', 5)\<close>, so the sixth file fails with
  \<^verbatim>\<open>LIMIT_UNEXPECTED_FILE\<close> and \<^verbatim>\<open>handleMulterError\<close> answers 400 before the handler
  and its bound of 20 are reached; nothing is sent to the remote service.
\<close>

theorem six_images_rejected:
  "styleExtract_post rt env_sample six_uploads w = (ErrorReply 400 ''Unexpected field'' None, w)"
  by (simp add: styleExtract_post_def six_uploads_def upload_array_def env_sample_def png_def
        fileFilter_def allowedTypes_def handleMulterError_def)

theorem six_images_rejected_witness:
  "fst (styleExtract_post rt_sample env_sample six_uploads (world_of second_image_fails))
     = ErrorReply 400 ''Unexpected field'' None
   \<and> trace (snd (styleExtract_post rt_sample env_sample six_uploads (world_of second_image_fails)))
     = []"
  using six_images_rejected [of rt_sample "world_of second_image_fails"]
  by (simp add: world_of_def)

lemma no_images_rejected:
  "files request = [] \<Longrightarrow>
   styleExtract_post rt e request w = (ErrorReply 400 ''No images provided'' None, w)"
  by (simp add: styleExtract_post_def upload_array_def)

end
